theory Spec2Isabelle
  imports Main "HOL-Library.Word" "HOL-Library.Multiset"
begin

section \<open>Data model (api/v1alpha1/terraform\_types.go)\<close>

text \<open>
  Go strings are byte sequences and \<open>len\<close> counts bytes; an Isabelle \<open>string\<close> is a list
  of 8-bit characters, so \<open>length\<close> is Go's \<open>len\<close> and \<open>take n\<close> is the slice \<open>s[0:n]\<close>
  (for \<open>n \<le> len s\<close>).

  A \<open>metav1.Time\<close> is an instant on a linear time line; it is modelled as an integer,
  with \<open>0\<close> the zero instant (the one \<open>IsZero\<close> recognises) and \<open>t.After(u)\<close> as \<open>u < t\<close>.
  A \<open>*metav1.Time\<close> is an optional instant. \<open>int64\<close> values (generations, durations) are
  64-bit words.
\<close>

type_synonym Time = int
type_synonym Duration = "64 word"

definition IsZero :: "Time \<Rightarrow> bool" where
  "IsZero t = (t = 0)"

definition After :: "Time \<Rightarrow> Time \<Rightarrow> bool" where
  "After t u = (u < t)"

text \<open>\<open>metav1.ConditionStatus\<close>: the three values the API admits.\<close>

datatype ConditionStatus = ConditionTrue | ConditionFalse | ConditionUnknown

text \<open>\<open>metav1.Condition\<close>.\<close>

record Condition =
  cond_Type :: string
  cond_Status :: ConditionStatus
  cond_ObservedGeneration :: "64 word"
  cond_LastTransitionTime :: Time
  cond_Reason :: string
  cond_Message :: string

text \<open>
  Modelled from the spec: the declaration of \<open>ResourceRef\<close> is not among the source
  files. The spec's data model lists an "inventory (list of applied resource
  references)"; the functions modelled here only store and count such references, so a
  reference is an opaque identifier.
\<close>

datatype ResourceRef = ResourceRef string

record ResourceInventory =
  Entries :: "ResourceRef list"

record PlanStatus =
  LastApplied :: string
  Pending :: string
  IsDestroyPlan :: bool
  IsDriftDetectionPlan :: bool

record LockStatus =
  lock_LastApplied :: string
  lock_Pending :: string

record TerraformStatus =
  ObservedGeneration :: "64 word"
  Conditions :: "Condition list"
  LastAppliedRevision :: string
  LastAttemptedRevision :: string
  LastPlannedRevision :: string
  LastDriftDetectedAt :: "Time option"
  LastAppliedByDriftDetectionAt :: "Time option"
  AvailableOutputs :: "string list"
  Plan :: PlanStatus
  Inventory :: "ResourceInventory option"
  Lock :: LockStatus

text \<open>\<open>meta.NamespacedObjectReference\<close>, \<open>CrossNamespaceSourceReference\<close> and
  \<open>WriteOutputsToSecretSpec\<close>.\<close>

record NamespacedObjectReference =
  ref_Namespace :: string
  ref_Name :: string

record CrossNamespaceSourceReference =
  src_Kind :: string
  src_Name :: string
  src_Namespace :: string

record WriteOutputsToSecretSpec =
  secret_Name :: string
  secret_Outputs :: "string list"

text \<open>\<open>TerraformSpec\<close>: the fields the modelled functions read.\<close>

record TerraformSpec =
  ApprovePlan :: string
  Destroy :: bool
  Interval :: Duration
  RetryInterval :: "Duration option"
  SourceRef :: CrossNamespaceSourceReference
  Suspend :: bool
  Force :: bool
  WriteOutputsToSecret :: "WriteOutputsToSecretSpec option"
  DependsOn :: "NamespacedObjectReference list"

text \<open>\<open>Terraform\<close>: the object metadata the functions read, the spec and the status.\<close>

record Terraform =
  Name :: string
  Namespace :: string
  Generation :: "64 word"
  DeletionTimestamp :: "Time option"
  Finalizers :: "string list"
  Spec :: TerraformSpec
  Status :: TerraformStatus

definition MaxConditionMessageLength :: nat where
  "MaxConditionMessageLength = 20000"

definition ApprovePlanAutoValue :: string where
  "ApprovePlanAutoValue = ''auto''"

definition ReadyCondition :: string where
  "ReadyCondition = ''Ready''"

definition ConditionTypeApply :: string where
  "ConditionTypeApply = ''Apply''"

definition TFExecApplySucceedReason :: string where
  "TFExecApplySucceedReason = ''TerraformAppliedSucceed''"

definition ProgressingReason :: string where
  "ProgressingReason = ''Progressing''"

definition TFDependencyOfPrefix :: string where
  "TFDependencyOfPrefix = ''tf.dependency.of.''"

definition TerraformFinalizer :: string where
  "TerraformFinalizer = ''finalizers.tf.contrib.fluxcd.io''"

section \<open>Conditions\<close>

text \<open>\<open>trimString\<close>: a string longer than the limit is cut to the limit and an ellipsis
  is appended.\<close>

definition trimString :: "string \<Rightarrow> nat \<Rightarrow> string" where
  "trimString str limit = (if length str \<le> limit then str else take limit str @ ''...'')"

text \<open>
  \<open>apimeta.FindStatusCondition\<close> and \<open>apimeta.SetStatusCondition\<close> are functions of the
  Kubernetes library k8s.io/apimachinery (pkg/api/meta/conditions.go), which the source
  imports and calls for every condition it records. They are embedded from that library:
  \<open>FindStatusCondition\<close> returns the first condition of the given type;
  \<open>SetStatusCondition\<close> appends the new condition when none of its type exists (stamping
  the current time when the new condition carries no transition time), and otherwise
  updates the existing one in place: the status and the transition time only when the
  status differs, and the reason, message and observed generation always.
  \<open>now\<close> is the reading of \<open>time.Now()\<close>.
\<close>

fun FindStatusCondition :: "Condition list \<Rightarrow> string \<Rightarrow> Condition option" where
  "FindStatusCondition [] conditionType = None"
| "FindStatusCondition (c # cs) conditionType =
     (if cond_Type c = conditionType then Some c else FindStatusCondition cs conditionType)"

definition updateExisting :: "Time \<Rightarrow> Condition \<Rightarrow> Condition \<Rightarrow> Condition" where
  "updateExisting now existingCondition newCondition =
     (let e1 = (if cond_Status existingCondition \<noteq> cond_Status newCondition
                then existingCondition
                       \<lparr>cond_Status := cond_Status newCondition,
                        cond_LastTransitionTime :=
                          (if \<not> IsZero (cond_LastTransitionTime newCondition)
                           then cond_LastTransitionTime newCondition else now)\<rparr>
                else existingCondition)
      in e1\<lparr>cond_Reason := cond_Reason newCondition,
            cond_Message := cond_Message newCondition,
            cond_ObservedGeneration := cond_ObservedGeneration newCondition\<rparr>)"

fun SetStatusCondition :: "Time \<Rightarrow> Condition list \<Rightarrow> Condition \<Rightarrow> Condition list" where
  "SetStatusCondition now [] newCondition =
     [if IsZero (cond_LastTransitionTime newCondition)
      then newCondition\<lparr>cond_LastTransitionTime := now\<rparr> else newCondition]"
| "SetStatusCondition now (c # cs) newCondition =
     (if cond_Type c = cond_Type newCondition
      then updateExisting now c newCondition # cs
      else c # SetStatusCondition now cs newCondition)"

definition IsStatusConditionTrue :: "Condition list \<Rightarrow> string \<Rightarrow> bool" where
  "IsStatusConditionTrue conditions conditionType =
     (case FindStatusCondition conditions conditionType of
        None \<Rightarrow> False
      | Some c \<Rightarrow> cond_Status c = ConditionTrue)"

text \<open>A condition literal of the source: the fields it does not set are zero.\<close>

definition newCondition :: "string \<Rightarrow> ConditionStatus \<Rightarrow> string \<Rightarrow> string \<Rightarrow> Condition" where
  "newCondition ty st reason message =
     \<lparr>cond_Type = ty, cond_Status = st, cond_ObservedGeneration = 0,
      cond_LastTransitionTime = 0, cond_Reason = reason, cond_Message = message\<rparr>"

text \<open>\<open>SetTerraformReadiness\<close> sets the Ready condition, the observed generation and the
  last attempted revision.\<close>

definition SetTerraformReadiness ::
  "Time \<Rightarrow> Terraform \<Rightarrow> ConditionStatus \<Rightarrow> string \<Rightarrow> string \<Rightarrow> string \<Rightarrow> Terraform" where
  "SetTerraformReadiness now terraform status reason message revision =
     terraform\<lparr>Status := (Status terraform)
       \<lparr>Conditions := SetStatusCondition now (Conditions (Status terraform))
          (newCondition ReadyCondition status reason (trimString message MaxConditionMessageLength)),
        ObservedGeneration := Generation terraform,
        LastAttemptedRevision := revision\<rparr>\<rparr>"

section \<open>Status transitions\<close>

text \<open>
  \<open>TerraformApplied\<close>. The function reads the clock at up to three places: inside the
  two condition updates and for the drift-correction stamp; \<open>clock k\<close> is the reading at
  the \<open>k\<close>-th place in program order. The drift flag is read before the plan status is
  replaced, and the new plan status leaves \<open>IsDriftDetectionPlan\<close> at its zero value.
\<close>

definition TerraformApplied ::
  "(nat \<Rightarrow> Time) \<Rightarrow> Terraform \<Rightarrow> string \<Rightarrow> string \<Rightarrow> bool \<Rightarrow> ResourceRef list \<Rightarrow> Terraform" where
  "TerraformApplied clock terraform revision message isDestroyApply entries =
     (let s0 = Status terraform;
          s1 = s0\<lparr>Conditions := SetStatusCondition (clock 0) (Conditions s0)
                  (newCondition ConditionTypeApply ConditionTrue TFExecApplySucceedReason
                     (trimString message MaxConditionMessageLength))\<rparr>;
          s2 = (if IsDriftDetectionPlan (Plan s1)
                then s1\<lparr>LastAppliedByDriftDetectionAt := Some (clock 1)\<rparr> else s1);
          s3 = s2\<lparr>Plan := \<lparr>LastApplied = Pending (Plan s2), Pending = [],
                            IsDestroyPlan = isDestroyApply, IsDriftDetectionPlan = False\<rparr>\<rparr>;
          s4 = (if revision \<noteq> [] then s3\<lparr>LastAppliedRevision := revision\<rparr> else s3);
          s5 = (if length entries > 0
                then s4\<lparr>Inventory := Some \<lparr>Entries = entries\<rparr>\<rparr> else s4)
      in SetTerraformReadiness (clock 2) (terraform\<lparr>Status := s5\<rparr>) ConditionUnknown
           TFExecApplySucceedReason (message @ '': '' @ revision) revision)"

text \<open>\<open>strings.Replace(s, old, new, 1)\<close> and \<open>strings.SplitN(s, sep, 2)\<close> for a
  one-character \<open>old\<close>, \<open>new\<close> and \<open>sep\<close>, which is how the source calls them.\<close>

fun ReplaceFirst :: "string \<Rightarrow> char \<Rightarrow> char \<Rightarrow> string" where
  "ReplaceFirst [] old new = []"
| "ReplaceFirst (c # cs) old new = (if c = old then new # cs else c # ReplaceFirst cs old new)"

definition SplitN2 :: "string \<Rightarrow> char \<Rightarrow> string list" where
  "SplitN2 s sep =
     (if sep \<in> set s
      then [takeWhile (\<lambda>c. c \<noteq> sep) s, tl (dropWhile (\<lambda>c. c \<noteq> sep) s)]
      else [s])"

definition GetPlanIdAndApproveMessage :: "string \<Rightarrow> string \<Rightarrow> string \<times> string" where
  "GetPlanIdAndApproveMessage revision message =
     (let planRev = ReplaceFirst revision (CHR ''/'') (CHR ''-'');
          planId = ''plan-'' @ planRev;
          parts = SplitN2 revision (CHR ''/'');
          shortPlanId =
            (if length parts = 2 \<and> length (parts ! 1) \<ge> 10
             then ''plan-'' @ parts ! 0 @ ''-'' @ take 10 (parts ! 1)
             else planId);
          approveMessage = message @ '': set approvePlan: '' @ [CHR 0x22] @ shortPlanId
                             @ [CHR 0x22] @ '' to approve this plan.''
      in (planId, approveMessage))"

text \<open>\<open>HasDrift\<close>: the loop over the conditions returns at the first Apply condition that
  is True and older than the recorded drift.\<close>

fun HasDrift_loop :: "Time option \<Rightarrow> Condition list \<Rightarrow> bool" where
  "HasDrift_loop lastDrift [] = False"
| "HasDrift_loop lastDrift (condition # rest) =
     (if cond_Type condition = ConditionTypeApply \<and>
         cond_Status condition = ConditionTrue \<and>
         lastDrift \<noteq> None \<and>
         After (the lastDrift) (cond_LastTransitionTime condition)
      then True
      else HasDrift_loop lastDrift rest)"

definition HasDrift :: "Terraform \<Rightarrow> bool" where
  "HasDrift t = HasDrift_loop (LastDriftDetectedAt (Status t)) (Conditions (Status t))"

definition GetRetryInterval :: "Terraform \<Rightarrow> Duration" where
  "GetRetryInterval t =
     (case RetryInterval (Spec t) of
        Some d \<Rightarrow> d
      | None \<Rightarrow> Interval (Spec t))"

section \<open>Errors, sources and the reconciler's collaborators\<close>

text \<open>
  A Go \<open>error\<close>: an API error that \<open>apierrors.IsNotFound\<close> recognises, any other error
  with its message, or the run-time panic of a nil dereference. \<open>fmt.Errorf\<close> builds an
  error of the second kind from the formatted message.
\<close>

datatype error = NotFound string | Failure string | NilPointerPanic

fun Error :: "error \<Rightarrow> string" where
  "Error (NotFound m) = m"
| "Error (Failure m) = m"
| "Error NilPointerPanic = ''invalid memory address or nil pointer dereference''"

fun IsNotFound :: "error \<Rightarrow> bool" where
  "IsNotFound (NotFound m) = True"
| "IsNotFound e = False"

text \<open>\<open>sourcev1.Artifact\<close> and the \<open>sourcev1.Source\<close> interface, of which only
  \<open>GetArtifact\<close> is called.\<close>

record Artifact =
  URL :: string
  Revision :: string
  Checksum :: string

record Source =
  GetArtifact :: "Artifact option"

record NamespacedName =
  nn_Namespace :: string
  nn_Name :: string

definition NamespacedName_String :: "NamespacedName \<Rightarrow> string" where
  "NamespacedName_String n = nn_Namespace n @ ''/'' @ nn_Name n"

text \<open>\<open>ctrl.Result\<close>; \<open>ctrl.Result{}\<close> asks for no requeue.\<close>

record Result =
  Requeue :: bool
  RequeueAfter :: Duration

definition NoRequeue :: Result where
  "NoRequeue = \<lparr>Requeue = False, RequeueAfter = 0\<rparr>"

text \<open>
  The reconciler \<open>r\<close>. The answers of the API server to \<open>r.Get\<close>, \<open>r.Patch\<close> (which
  returns the patched object as the server stores it) and \<open>r.Status().Patch\<close> are inputs
  of the model, as are the methods that \<open>Reconcile\<close> calls and whose code is not among
  the source files: \<open>LookupOrCreateRunner\<close>, \<open>finalize\<close>, \<open>reconcile\<close> (the
  plan/apply/drift cycle run on the runner), the two approval predicates
  \<open>forceOrAutoApply\<close> and \<open>shouldApply\<close>, \<open>CrossNamespaceSourceReference.String\<close> and the
  standard library's \<open>Duration.String\<close>.
  \<open>Now k\<close> is the reading of \<open>time.Now()\<close> at the \<open>k\<close>-th place of \<open>Reconcile\<close> that
  records a condition.
\<close>

record TerraformReconciler =
  Get_Terraform :: "NamespacedName \<Rightarrow> error + Terraform"
  Patch_Terraform :: "Terraform \<Rightarrow> error + Terraform"
  Status_Patch :: "Terraform \<Rightarrow> error option"
  Get_Secret :: "NamespacedName \<Rightarrow> error option"
  Get_GitRepository :: "NamespacedName \<Rightarrow> error + Source"
  Get_Bucket :: "NamespacedName \<Rightarrow> error + Source"
  Get_OCIRepository :: "NamespacedName \<Rightarrow> error + Source"
  LookupOrCreateRunner :: "Terraform \<Rightarrow> error option"
  finalize :: "Terraform \<Rightarrow> Source \<Rightarrow> Result \<times> error option"
  reconcile :: "Terraform \<Rightarrow> Source \<Rightarrow> Terraform \<times> error option"
  forceOrAutoApply :: "Terraform \<Rightarrow> bool"
  shouldApply :: "Terraform \<Rightarrow> bool"
  SourceRef_String :: "CrossNamespaceSourceReference \<Rightarrow> string"
  Duration_String :: "Duration \<Rightarrow> string"
  Now :: "nat \<Rightarrow> Time"

section \<open>Dependency check (controllers/tf\_controller.go)\<close>

definition ContainsFinalizer :: "Terraform \<Rightarrow> string \<Rightarrow> bool" where
  "ContainsFinalizer obj finalizer = (finalizer \<in> set (Finalizers obj))"

definition AddFinalizer :: "Terraform \<Rightarrow> string \<Rightarrow> Terraform" where
  "AddFinalizer obj finalizer =
     (if finalizer \<in> set (Finalizers obj) then obj
      else obj\<lparr>Finalizers := Finalizers obj @ [finalizer]\<rparr>)"

definition apostrophe :: string where
  "apostrophe = [CHR 0x27]"

definition notReadyError :: "NamespacedName \<Rightarrow> error" where
  "notReadyError dName =
     Failure (''dependency '' @ apostrophe @ NamespacedName_String dName @ apostrophe
              @ '' is not ready'')"

definition notUpdatedError :: "NamespacedName \<Rightarrow> error" where
  "notUpdatedError dName =
     Failure (''dependency '' @ apostrophe @ NamespacedName_String dName @ apostrophe
              @ '' is not updated yet'')"

definition dependencyName :: "Terraform \<Rightarrow> NamespacedObjectReference \<Rightarrow> NamespacedName" where
  "dependencyName terraform d =
     \<lparr>nn_Namespace = (if ref_Namespace d = [] then Namespace terraform else ref_Namespace d),
      nn_Name = ref_Name d\<rparr>"

text \<open>
  \<open>checkDependencies\<close> loops over \<open>Spec.DependsOn\<close>; each \<open>return\<close> of the loop body
  ends the whole check with that error, and \<open>None\<close> is the \<open>nil\<close> returned when every
  dependency passed. The loop body is written in two parts.

  Lines 485--505, \<open>fetchDependency\<close>: get the dependency object and register the
  back-reference finalizer on it. \<open>r.Patch\<close> overwrites the local object with the server's
  answer, so the checks that follow read that answer.
\<close>

definition fetchDependency ::
  "TerraformReconciler \<Rightarrow> Terraform \<Rightarrow> NamespacedObjectReference \<Rightarrow> error + Terraform" where
  "fetchDependency r terraform d =
     (let dependantFinalizer = TFDependencyOfPrefix @ Name terraform;
          dName = dependencyName terraform d
      in case Get_Terraform r dName of
           Inl err \<Rightarrow>
             Inl (Failure (''unable to get '' @ apostrophe @ NamespacedName_String dName
                           @ apostrophe @ '' dependency: '' @ Error err))
         | Inr tf \<Rightarrow>
             if \<not> ContainsFinalizer tf dependantFinalizer
             then (case Patch_Terraform r (AddFinalizer tf dependantFinalizer) of
                     Inl err \<Rightarrow>
                       Inl (Failure (''unable to add finalizer to '' @ apostrophe
                                     @ NamespacedName_String dName @ apostrophe
                                     @ '' dependency: '' @ Error err))
                   | Inr patched \<Rightarrow> Inr patched)
             else Inr tf)"

text \<open>
  Lines 507--533, \<open>checkDependency\<close>: the checks on the dependency object \<open>tf\<close>. The
  revision is read from the source's artifact only after the readiness checks, where a
  missing artifact is a nil dereference.
\<close>

definition checkDependency ::
  "TerraformReconciler \<Rightarrow> Source \<Rightarrow> Terraform \<Rightarrow> NamespacedName \<Rightarrow> Terraform \<Rightarrow> error option" where
  "checkDependency r source terraform dName tf =
     (if length (Conditions (Status tf)) = 0 \<or>
         Generation tf \<noteq> ObservedGeneration (Status tf)
      then Some (notReadyError dName)
      else if \<not> IsStatusConditionTrue (Conditions (Status tf)) ReadyCondition
      then Some (notReadyError dName)
      else (case GetArtifact source of
              None \<Rightarrow> Some NilPointerPanic
            | Some artifact \<Rightarrow>
                (let revision = Revision artifact
                 in if src_Name (SourceRef (Spec tf)) = src_Name (SourceRef (Spec terraform)) \<and>
                       src_Namespace (SourceRef (Spec tf)) = src_Namespace (SourceRef (Spec terraform)) \<and>
                       src_Kind (SourceRef (Spec tf)) = src_Kind (SourceRef (Spec terraform)) \<and>
                       revision \<noteq> LastAppliedRevision (Status tf) \<and>
                       revision \<noteq> LastPlannedRevision (Status tf)
                    then Some (notUpdatedError dName)
                    else (case WriteOutputsToSecret (Spec tf) of
                            None \<Rightarrow> None
                          | Some w \<Rightarrow>
                              (case Get_Secret r \<lparr>nn_Namespace = Namespace tf,
                                                  nn_Name = secret_Name w\<rparr> of
                                 Some err \<Rightarrow>
                                   Some (Failure (''dependency output secret: '' @ apostrophe
                                                  @ secret_Name w @ apostrophe @ '' of ''
                                                  @ apostrophe @ NamespacedName_String dName
                                                  @ apostrophe @ '' is not ready yet''))
                               | None \<Rightarrow> None)))))"

fun checkDependencies_loop ::
  "TerraformReconciler \<Rightarrow> Source \<Rightarrow> Terraform \<Rightarrow> NamespacedObjectReference list \<Rightarrow> error option" where
  "checkDependencies_loop r source terraform [] = None"
| "checkDependencies_loop r source terraform (d # ds) =
     (case fetchDependency r terraform d of
        Inl err \<Rightarrow> Some err
      | Inr tf \<Rightarrow>
          (case checkDependency r source terraform (dependencyName terraform d) tf of
             Some err \<Rightarrow> Some err
           | None \<Rightarrow> checkDependencies_loop r source terraform ds))"

definition checkDependencies :: "TerraformReconciler \<Rightarrow> Source \<Rightarrow> Terraform \<Rightarrow> error option" where
  "checkDependencies r source terraform =
     checkDependencies_loop r source terraform (DependsOn (Spec terraform))"

section \<open>Artifact download and verification (controllers/tf\_controller.go)\<close>

text \<open>
  The digest functions \<open>crypto/sha1\<close> and \<open>crypto/sha256\<close> belong to the Go standard
  library; the model takes them as parameters. \<open>fmt.Sprintf("%x", digest)\<close> writes each
  byte as two lower-case hexadecimal digits.
\<close>

record Hashers =
  sha1_Sum :: "8 word list \<Rightarrow> 8 word list"
  sha256_Sum :: "8 word list \<Rightarrow> 8 word list"

definition hexdigit :: "nat \<Rightarrow> char" where
  "hexdigit n = ''0123456789abcdef'' ! n"

definition hexbyte :: "8 word \<Rightarrow> string" where
  "hexbyte b = [hexdigit (unat b div 16), hexdigit (unat b mod 16)]"

definition hex :: "8 word list \<Rightarrow> string" where
  "hex bs = concat (map hexbyte bs)"

text \<open>An \<open>io.Reader\<close>: the bytes it delivers, and the error (other than end of file) that
  ends the stream, if any.\<close>

record Reader =
  rd_Data :: "8 word list"
  rd_Err :: "error option"

text \<open>
  \<open>verifyArtifact\<close> copies the reader into the hasher and the buffer at once; a read
  error is returned before any digest is compared. The function returns the buffer as
  the copy left it, and the error.
\<close>

definition verifyArtifact ::
  "Hashers \<Rightarrow> Artifact \<Rightarrow> 8 word list \<Rightarrow> Reader \<Rightarrow> 8 word list \<times> error option" where
  "verifyArtifact H artifact buf reader =
     (let hasher = (if length (Checksum artifact) = 40 then sha1_Sum H else sha256_Sum H);
          buf' = buf @ rd_Data reader
      in case rd_Err reader of
           Some err \<Rightarrow> (buf', Some err)
         | None \<Rightarrow>
             (let checksum = hex (hasher (rd_Data reader)) in
              if checksum \<noteq> Checksum artifact
              then (buf', Some (Failure (''failed to verify artifact: computed checksum ''
                      @ apostrophe @ checksum @ apostrophe @ '' doesn'' @ apostrophe
                      @ ''t match advertised '' @ apostrophe @ Checksum artifact @ apostrophe)))
              else (buf', None)))"

text \<open>
  The HTTP side of \<open>downloadAsBytes\<close>: the environment variable
  \<open>SOURCE_CONTROLLER_LOCALHOST\<close>, \<open>url.Parse\<close> followed by the host rewrite,
  \<open>retryablehttp.NewRequest\<close> and the client's \<open>Do\<close>, all library code whose results are
  inputs of the model.
\<close>

record Response =
  StatusCode :: nat
  StatusText :: string
  Body :: Reader

record HttpEnv =
  SOURCE_CONTROLLER_LOCALHOST :: string
  ParseAndSetHost :: "string \<Rightarrow> string \<Rightarrow> error + string"
  NewRequest :: "string \<Rightarrow> error option"
  Do :: "string \<Rightarrow> error + Response"

definition downloadAsBytes ::
  "HttpEnv \<Rightarrow> Hashers \<Rightarrow> Artifact \<Rightarrow> error + 8 word list" where
  "downloadAsBytes env H artifact =
     (case (if SOURCE_CONTROLLER_LOCALHOST env \<noteq> []
            then ParseAndSetHost env (URL artifact) (SOURCE_CONTROLLER_LOCALHOST env)
            else Inr (URL artifact)) of
        Inl err \<Rightarrow> Inl err
      | Inr artifactURL \<Rightarrow>
          (case NewRequest env artifactURL of
             Some err \<Rightarrow> Inl (Failure (''failed to create a new request: '' @ Error err))
           | None \<Rightarrow>
               (case Do env artifactURL of
                  Inl err \<Rightarrow> Inl (Failure (''failed to download artifact, error: '' @ Error err))
                | Inr resp \<Rightarrow>
                    if StatusCode resp \<noteq> 200
                    then Inl (Failure (''failed to download artifact from '' @ artifactURL
                                       @ '', status: '' @ StatusText resp))
                    else (case verifyArtifact H artifact [] (Body resp) of
                            (buf, Some err) \<Rightarrow> Inl err
                          | (buf, None) \<Rightarrow> Inr buf))))"

section \<open>The reconciliation loop (controllers/tf\_controller.go)\<close>

definition ArtifactFailedReason :: string where
  "ArtifactFailedReason = ''ArtifactFailed''"

definition DeletionBlockedByDependants :: string where
  "DeletionBlockedByDependants = ''DeletionBlockedByDependantsReason''"

definition DependencyNotReadyReason :: string where
  "DependencyNotReadyReason = ''DependencyNotReady''"

definition DriftDetectedReason :: string where
  "DriftDetectedReason = ''DriftDetected''"

text \<open>\<open>TerraformProgressing\<close> and \<open>TerraformNotReady\<close> (api/v1alpha1/terraform\_types.go).\<close>

definition TerraformProgressing :: "Time \<Rightarrow> Terraform \<Rightarrow> string \<Rightarrow> Terraform" where
  "TerraformProgressing now terraform message =
     terraform\<lparr>Status := (Status terraform)
       \<lparr>Conditions := SetStatusCondition now (Conditions (Status terraform))
          (newCondition ReadyCondition ConditionUnknown ProgressingReason
             (trimString message MaxConditionMessageLength))\<rparr>\<rparr>"

definition TerraformNotReady :: "Time \<Rightarrow> Terraform \<Rightarrow> string \<Rightarrow> string \<Rightarrow> string \<Rightarrow> Terraform" where
  "TerraformNotReady now terraform revision reason message =
     (let t1 = SetTerraformReadiness now terraform ConditionFalse reason
                 (trimString message MaxConditionMessageLength) revision
      in if revision \<noteq> []
         then t1\<lparr>Status := (Status t1)\<lparr>LastAttemptedRevision := revision\<rparr>\<rparr>
         else t1)"

text \<open>
  Modelled from the spec: the bodies of \<open>forceOrAutoApply\<close> and \<open>shouldApply\<close> are not
  among the source files, and the loop takes them as parameters of the reconciler. The
  examples instantiate them as the spec's approval gating describes them: "the loop never
  applies a pending plan unless approval is automatic, forced, or the approval field
  names that exact plan id", over an approval mode that is empty for manual, \<open>auto\<close> for
  automatic, or a specific plan identifier.
\<close>

definition spec_forceOrAutoApply :: "Terraform \<Rightarrow> bool" where
  "spec_forceOrAutoApply terraform =
     (Force (Spec terraform) \<or> ApprovePlan (Spec terraform) = ApprovePlanAutoValue)"

definition spec_shouldApply :: "Terraform \<Rightarrow> bool" where
  "spec_shouldApply terraform =
     (Force (Spec terraform) \<or> ApprovePlan (Spec terraform) = ApprovePlanAutoValue \<or>
      (ApprovePlan (Spec terraform) \<noteq> [] \<and>
       ApprovePlan (Spec terraform) = Pending (Plan (Status terraform))))"

text \<open>\<open>strings.HasPrefix\<close>, \<open>strings.TrimPrefix\<close> and \<open>strings.Join\<close>.\<close>

definition HasPrefix :: "string \<Rightarrow> string \<Rightarrow> bool" where
  "HasPrefix s prefix = (take (length prefix) s = prefix)"

definition TrimPrefix :: "string \<Rightarrow> string \<Rightarrow> string" where
  "TrimPrefix s prefix = (if HasPrefix s prefix then drop (length prefix) s else s)"

fun Join :: "string list \<Rightarrow> string \<Rightarrow> string" where
  "Join [] sep = []"
| "Join [x] sep = x"
| "Join (x # y # ys) sep = x @ sep @ Join (y # ys) sep"

definition isBeingDeleted :: "Terraform \<Rightarrow> bool" where
  "isBeingDeleted terraform =
     (case DeletionTimestamp terraform of None \<Rightarrow> False | Some ts \<Rightarrow> \<not> IsZero ts)"

definition IgnoreNotFound :: "error \<Rightarrow> error option" where
  "IgnoreNotFound err = (if IsNotFound err then None else Some err)"

text \<open>\<open>getSource\<close> resolves the source reference by kind (the kind names are the
  constants of the source-controller API); an error that is not a not-found error is
  wrapped.\<close>

definition getSource :: "TerraformReconciler \<Rightarrow> Terraform \<Rightarrow> error + Source" where
  "getSource r terraform =
     (let ref = SourceRef (Spec terraform);
          sourceNamespace = (if src_Namespace ref \<noteq> [] then src_Namespace ref
                             else Namespace terraform);
          namespacedName = \<lparr>nn_Namespace = sourceNamespace, nn_Name = src_Name ref\<rparr>;
          got = (\<lambda>res. case res of
                   Inl err \<Rightarrow>
                     if IsNotFound err then Inl err
                     else Inl (Failure (''unable to get source '' @ apostrophe
                            @ NamespacedName_String namespacedName @ apostrophe @ '': ''
                            @ Error err))
                 | Inr sourceObj \<Rightarrow> Inr sourceObj)
      in if src_Kind ref = ''GitRepository'' then got (Get_GitRepository r namespacedName)
         else if src_Kind ref = ''Bucket'' then got (Get_Bucket r namespacedName)
         else if src_Kind ref = ''OCIRepository'' then got (Get_OCIRepository r namespacedName)
         else Inl (Failure (''source '' @ [CHR 0x60] @ src_Name ref @ [CHR 0x60] @ '' kind ''
                @ apostrophe @ src_Kind ref @ apostrophe @ '' not supported'')))"

text \<open>\<open>patchStatus\<close> reads the stored object again and patches its status.\<close>

definition patchStatus ::
  "TerraformReconciler \<Rightarrow> NamespacedName \<Rightarrow> TerraformStatus \<Rightarrow> error option" where
  "patchStatus r objectKey newStatus =
     (case Get_Terraform r objectKey of
        Inl err \<Rightarrow> Some err
      | Inr terraform \<Rightarrow> Status_Patch r (terraform\<lparr>Status := newStatus\<rparr>))"

text \<open>
  What \<open>Reconcile\<close> asks of its collaborators, in program order: the status patches, the
  finalizer patch, the runner lookup, the finalize sequence, the plan/apply/drift cycle
  \<open>r.reconcile\<close> (the only place of the loop that plans and applies outside deletion) and
  the events. Logging and metrics have no effect on the result and are left out, as is
  the deferred runner clean-up, which by its own comment does not affect the return value.
\<close>

datatype Call =
    PatchFinalizerCall Terraform
  | PatchStatusCall TerraformStatus
  | LookupOrCreateRunnerCall Terraform
  | FinalizeCall Terraform
  | ReconcileCall Terraform
  | EventCall string string string

record Outcome =
  out_Result :: Result
  out_Err :: "error option"
  out_Calls :: "Call list"

text \<open>\<open>r.event\<close>: the event type follows the severity, the reason is the Ready
  condition's when there is one.\<close>

definition event :: "Terraform \<Rightarrow> string \<Rightarrow> string \<Rightarrow> Call" where
  "event terraform severity msg =
     (let reason = (case FindStatusCondition (Conditions (Status terraform)) ReadyCondition of
                      Some c \<Rightarrow> cond_Reason c | None \<Rightarrow> severity);
          eventType = (if severity = ''error'' then ''Warning'' else ''Normal'')
      in EventCall eventType reason msg)"

text \<open>
  \<open>Reconcile\<close> is a sequence of steps, each of which either returns from the function or
  hands the object on. A step yields \<open>Inl\<close> of the outcome when it returns, and \<open>Inr\<close> of
  what the next step receives otherwise; \<open>andThen\<close> chains them.
\<close>

definition andThen :: "Outcome + 'a \<Rightarrow> ('a \<Rightarrow> Outcome + 'b) \<Rightarrow> Outcome + 'b" where
  "andThen m f = (case m of Inl outcome \<Rightarrow> Inl outcome | Inr a \<Rightarrow> f a)"

text \<open>
  Lines 106--117 wait on the channels of the certificate rotation; the model starts
  where that wait has ended.

  Lines 119--149: fetch the object, register the finalizer (the patch overwrites the
  local object with the server's answer), stop when suspended.
\<close>

definition Reconcile_fetch ::
  "TerraformReconciler \<Rightarrow> NamespacedName \<Rightarrow> Outcome + (Terraform \<times> Call list)" where
  "Reconcile_fetch r req =
     (case Get_Terraform r req of
        Inl err \<Rightarrow> Inl \<lparr>out_Result = NoRequeue, out_Err = IgnoreNotFound err, out_Calls = []\<rparr>
      | Inr fetched \<Rightarrow>
          andThen
            (if \<not> ContainsFinalizer fetched TerraformFinalizer
             then (let withFinalizer = AddFinalizer fetched TerraformFinalizer
                   in case Patch_Terraform r withFinalizer of
                        Inl err \<Rightarrow> Inl \<lparr>out_Result = NoRequeue, out_Err = Some err,
                                         out_Calls = [PatchFinalizerCall withFinalizer]\<rparr>
                      | Inr patched \<Rightarrow> Inr (patched, [PatchFinalizerCall withFinalizer]))
             else Inr (fetched, []))
            (\<lambda>(terraform, calls).
               if Suspend (Spec terraform)
               then Inl \<lparr>out_Result = NoRequeue, out_Err = None, out_Calls = calls\<rparr>
               else Inr (terraform, calls)))"

text \<open>Lines 151--170: a deletion blocked by dependants.\<close>

definition Reconcile_deletionBlocked ::
  "TerraformReconciler \<Rightarrow> NamespacedName \<Rightarrow> Terraform \<times> Call list \<Rightarrow>
   Outcome + (Terraform \<times> Call list)" where
  "Reconcile_deletionBlocked r req = (\<lambda>(terraform, calls).
     (let dependants = map (\<lambda>f. TrimPrefix f TFDependencyOfPrefix)
                         (filter (\<lambda>f. HasPrefix f TFDependencyOfPrefix) (Finalizers terraform))
      in if isBeingDeleted terraform \<and> length dependants > 0
         then (let msg = ''Deletion in progress, but blocked. Please delete ''
                           @ Join dependants '', '' @ '' to resume ...'';
                   terraform' = TerraformNotReady (Now r 0) terraform []
                                  DeletionBlockedByDependants msg;
                   calls' = calls @ [PatchStatusCall (Status terraform')]
               in case patchStatus r req (Status terraform') of
                    Some err \<Rightarrow>
                      Inl \<lparr>out_Result = \<lparr>Requeue = True, RequeueAfter = 0\<rparr>,
                           out_Err = Some err, out_Calls = calls'\<rparr>
                  | None \<Rightarrow>
                      Inl \<lparr>out_Result = \<lparr>Requeue = False,
                                          RequeueAfter = GetRetryInterval terraform'\<rparr>,
                           out_Err = None, out_Calls = calls'\<rparr>)
         else Inr (terraform, calls)))"

text \<open>What the remaining steps hand on: the object, the source, its artifact and the
  calls made so far.\<close>

record Progress =
  pr_terraform :: Terraform
  pr_sourceObj :: Source
  pr_artifact :: Artifact
  pr_calls :: "Call list"

text \<open>The not-ready return shared by the source, artifact and dependency steps: record
  the condition, persist it, requeue at the retry interval.\<close>

definition notReadyReturn ::
  "TerraformReconciler \<Rightarrow> NamespacedName \<Rightarrow> Terraform \<Rightarrow> Call list \<Rightarrow> Call list \<Rightarrow> Outcome" where
  "notReadyReturn r req terraform calls events =
     (let calls' = calls @ [PatchStatusCall (Status terraform)]
      in case patchStatus r req (Status terraform) of
           Some err \<Rightarrow> \<lparr>out_Result = \<lparr>Requeue = True, RequeueAfter = 0\<rparr>,
                        out_Err = Some err, out_Calls = calls'\<rparr>
         | None \<Rightarrow> \<lparr>out_Result = \<lparr>Requeue = False,
                                     RequeueAfter = GetRetryInterval terraform\<rparr>,
                     out_Err = None, out_Calls = calls' @ events\<rparr>)"

text \<open>Lines 172--212: resolve the source and its artifact.\<close>

definition Reconcile_source ::
  "TerraformReconciler \<Rightarrow> NamespacedName \<Rightarrow> Terraform \<times> Call list \<Rightarrow> Outcome + Progress" where
  "Reconcile_source r req = (\<lambda>(terraform, calls).
     (case getSource r terraform of
        Inl err \<Rightarrow>
          if IsNotFound err
          then (let msg = ''Source '' @ apostrophe
                            @ SourceRef_String r (SourceRef (Spec terraform))
                            @ apostrophe @ '' not found''
                in Inl (notReadyReturn r req
                          (TerraformNotReady (Now r 1) terraform [] ArtifactFailedReason msg)
                          calls []))
          else Inl \<lparr>out_Result = \<lparr>Requeue = True, RequeueAfter = 0\<rparr>,
                    out_Err = Some err, out_Calls = calls\<rparr>
      | Inr sourceObj \<Rightarrow>
          (case GetArtifact sourceObj of
             None \<Rightarrow>
               Inl (notReadyReturn r req
                      (TerraformNotReady (Now r 2) terraform [] ArtifactFailedReason
                         ''Source is not ready, artifact not found'')
                      calls [])
           | Some artifact \<Rightarrow>
               Inr \<lparr>pr_terraform = terraform, pr_sourceObj = sourceObj,
                    pr_artifact = artifact, pr_calls = calls\<rparr>)))"

text \<open>Lines 214--234: the dependency check, skipped for an object under deletion.\<close>

definition Reconcile_dependencies ::
  "TerraformReconciler \<Rightarrow> NamespacedName \<Rightarrow> Progress \<Rightarrow> Outcome + Progress" where
  "Reconcile_dependencies r req p =
     (let terraform = pr_terraform p
      in if length (DependsOn (Spec terraform)) > 0 \<and> \<not> isBeingDeleted terraform
         then (case checkDependencies r (pr_sourceObj p) terraform of
                 Some err \<Rightarrow>
                   (let terraform' = TerraformNotReady (Now r 3) terraform
                          (Revision (pr_artifact p)) DependencyNotReadyReason (Error err);
                        msg = ''Dependencies do not meet ready condition, retrying in ''
                                @ Duration_String r (GetRetryInterval terraform')
                    in Inl (notReadyReturn r req terraform' (pr_calls p)
                              [event terraform' ''info'' msg]))
               | None \<Rightarrow> Inr p)
         else Inr p)"

text \<open>Lines 236--255: flip readiness to Progressing unless it is Unknown already.\<close>

definition Reconcile_progressing ::
  "TerraformReconciler \<Rightarrow> NamespacedName \<Rightarrow> Progress \<Rightarrow> Outcome + Progress" where
  "Reconcile_progressing r req p =
     (let terraform = pr_terraform p;
          ready = FindStatusCondition (Conditions (Status terraform)) ReadyCondition
      in if (case ready of None \<Rightarrow> True | Some c \<Rightarrow> cond_Status c \<noteq> ConditionUnknown)
         then (let msg = (if isBeingDeleted terraform then ''Deletion in progress''
                          else ''Reconciliation in progress'');
                   terraform' = TerraformProgressing (Now r 4) terraform msg;
                   calls' = pr_calls p @ [PatchStatusCall (Status terraform')]
               in case patchStatus r req (Status terraform') of
                    Some err \<Rightarrow>
                      Inl \<lparr>out_Result = \<lparr>Requeue = True, RequeueAfter = 0\<rparr>,
                           out_Err = Some err, out_Calls = calls'\<rparr>
                  | None \<Rightarrow> Inr (p\<lparr>pr_terraform := terraform', pr_calls := calls'\<rparr>))
         else Inr p)"

text \<open>Lines 257--270: acquire the runner.\<close>

definition Reconcile_runner ::
  "TerraformReconciler \<Rightarrow> Progress \<Rightarrow> Outcome + Progress" where
  "Reconcile_runner r p =
     (let calls' = pr_calls p @ [LookupOrCreateRunnerCall (pr_terraform p)]
      in case LookupOrCreateRunner r (pr_terraform p) of
           Some err \<Rightarrow> Inl \<lparr>out_Result = NoRequeue, out_Err = Some err, out_Calls = calls'\<rparr>
         | None \<Rightarrow> Inr (p\<lparr>pr_calls := calls'\<rparr>))"

text \<open>Lines 329--336: the finalize sequence of an object under deletion; only its
  failure returns.\<close>

definition Reconcile_finalize ::
  "TerraformReconciler \<Rightarrow> Progress \<Rightarrow> Outcome + Progress" where
  "Reconcile_finalize r p =
     (if isBeingDeleted (pr_terraform p)
      then (let calls' = pr_calls p @ [FinalizeCall (pr_terraform p)]
            in case finalize r (pr_terraform p) (pr_sourceObj p) of
                 (result, Some err) \<Rightarrow>
                   Inl \<lparr>out_Result = result, out_Err = Some err, out_Calls = calls'\<rparr>
               | (result, None) \<Rightarrow> Inr (p\<lparr>pr_calls := calls'\<rparr>))
      else Inr p)"

text \<open>Lines 338--348: a changed revision with no intent to apply clears the pending
  plan.\<close>

definition Reconcile_clearPending ::
  "TerraformReconciler \<Rightarrow> NamespacedName \<Rightarrow> Progress \<Rightarrow> Outcome + Progress" where
  "Reconcile_clearPending r req p =
     (let terraform = pr_terraform p
      in if Revision (pr_artifact p) \<noteq> LastAttemptedRevision (Status terraform) \<and>
            \<not> shouldApply r terraform
         then (let terraform' = terraform\<lparr>Status := (Status terraform)
                                   \<lparr>Plan := (Plan (Status terraform))\<lparr>Pending := []\<rparr>\<rparr>\<rparr>;
                   calls' = pr_calls p @ [PatchStatusCall (Status terraform')]
               in case patchStatus r req (Status terraform') of
                    Some err \<Rightarrow>
                      Inl \<lparr>out_Result = \<lparr>Requeue = True, RequeueAfter = 0\<rparr>,
                           out_Err = Some err, out_Calls = calls'\<rparr>
                  | None \<Rightarrow> Inr (p\<lparr>pr_terraform := terraform', pr_calls := calls'\<rparr>))
         else Inr p)"

text \<open>Everything \<open>Reconcile\<close> does before the approval gate of line 352.\<close>

definition Reconcile_prepare ::
  "TerraformReconciler \<Rightarrow> NamespacedName \<Rightarrow> Outcome + Progress" where
  "Reconcile_prepare r req =
     andThen (andThen (andThen (andThen (andThen (andThen (andThen
       (Reconcile_fetch r req)
       (Reconcile_deletionBlocked r req))
       (Reconcile_source r req))
       (Reconcile_dependencies r req))
       (Reconcile_progressing r req))
       (Reconcile_runner r))
       (Reconcile_finalize r))
       (Reconcile_clearPending r req)"

text \<open>
  Lines 357--400: run the cycle, persist its status and decide the requeue. The retry
  interval and the interval are read from the object held before the cycle; the second
  approval check reads the reconciled object and asks only \<open>r.forceOrAutoApply\<close>.
\<close>

definition Reconcile_cycle ::
  "TerraformReconciler \<Rightarrow> NamespacedName \<Rightarrow> Progress \<Rightarrow> Outcome" where
  "Reconcile_cycle r req p =
     (let terraform = pr_terraform p;
          (reconciledTerraform, reconcileErr) = reconcile r terraform (pr_sourceObj p);
          calls' = pr_calls p @ [ReconcileCall terraform,
                                 PatchStatusCall (Status reconciledTerraform)]
      in case patchStatus r req (Status reconciledTerraform) of
           Some err \<Rightarrow>
             \<lparr>out_Result = \<lparr>Requeue = True, RequeueAfter = 0\<rparr>,
              out_Err = Some err, out_Calls = calls'\<rparr>
         | None \<Rightarrow>
             (case reconcileErr of
                Some rerr \<Rightarrow>
                  if Error rerr = DriftDetectedReason
                  then \<lparr>out_Result = \<lparr>Requeue = False,
                                        RequeueAfter = GetRetryInterval terraform\<rparr>,
                        out_Err = None, out_Calls = calls'\<rparr>
                  else \<lparr>out_Result = \<lparr>Requeue = False,
                                        RequeueAfter = GetRetryInterval terraform\<rparr>,
                        out_Err = None,
                        out_Calls = calls' @ [event reconciledTerraform ''error'' (Error rerr)]\<rparr>
              | None \<Rightarrow>
                  if Pending (Plan (Status reconciledTerraform)) \<noteq> [] \<and>
                     \<not> forceOrAutoApply r reconciledTerraform
                  then \<lparr>out_Result = NoRequeue, out_Err = None, out_Calls = calls'\<rparr>
                  else \<lparr>out_Result = \<lparr>Requeue = False,
                                        RequeueAfter = Interval (Spec terraform)\<rparr>,
                        out_Err = None, out_Calls = calls'\<rparr>))"

text \<open>Lines 350--355: the approval gate before the cycle.\<close>

definition Reconcile_approvalGate ::
  "TerraformReconciler \<Rightarrow> NamespacedName \<Rightarrow> Progress \<Rightarrow> Outcome" where
  "Reconcile_approvalGate r req p =
     (let terraform = pr_terraform p
      in if Pending (Plan (Status terraform)) \<noteq> [] \<and> \<not> forceOrAutoApply r terraform \<and>
            \<not> shouldApply r terraform
         then \<lparr>out_Result = NoRequeue, out_Err = None, out_Calls = pr_calls p\<rparr>
         else Reconcile_cycle r req p)"

definition Reconcile :: "TerraformReconciler \<Rightarrow> NamespacedName \<Rightarrow> Outcome" where
  "Reconcile r req =
     (case Reconcile_prepare r req of
        Inl outcome \<Rightarrow> outcome
      | Inr p \<Rightarrow> Reconcile_approvalGate r req p)"

text \<open>
  For the properties of the loop: \<open>cycleObjects\<close> lists the objects that were handed to
  the plan/apply/drift cycle, in order, and \<open>quiet\<close> says of a step's result that no
  cycle has been run so far.
\<close>

fun cycleObjects :: "Call list \<Rightarrow> Terraform list" where
  "cycleObjects [] = []"
| "cycleObjects (ReconcileCall t # calls) = t # cycleObjects calls"
| "cycleObjects (c # calls) = cycleObjects calls"

definition quiet :: "Outcome + 'a \<Rightarrow> ('a \<Rightarrow> Call list) \<Rightarrow> bool" where
  "quiet m calls_of =
     (case m of
        Inl outcome \<Rightarrow> cycleObjects (out_Calls outcome) = []
      | Inr a \<Rightarrow> cycleObjects (calls_of a) = [])"

section \<open>Example objects\<close>

text \<open>Concrete objects on which the theorems below are instantiated: a Terraform object
  with a Ready and an Apply condition, a drift detected after the last apply, and a
  pending drift-detection plan awaiting manual approval.\<close>

definition example_ready :: Condition where
  "example_ready = \<lparr>cond_Type = ''Ready'', cond_Status = ConditionTrue,
     cond_ObservedGeneration = 0, cond_LastTransitionTime = 3,
     cond_Reason = ''TerraformOutputsWritten'', cond_Message = ''Outputs written: main/aaa''\<rparr>"

definition example_apply :: Condition where
  "example_apply = \<lparr>cond_Type = ''Apply'', cond_Status = ConditionTrue,
     cond_ObservedGeneration = 0, cond_LastTransitionTime = 5,
     cond_Reason = ''TerraformAppliedSucceed'', cond_Message = ''Applied successfully''\<rparr>"

definition example_terraform :: Terraform where
  "example_terraform =
     \<lparr>Name = ''app'', Namespace = ''default'', Generation = 2, DeletionTimestamp = None,
      Finalizers = [''finalizers.tf.contrib.fluxcd.io''],
      Spec = \<lparr>ApprovePlan = [], Destroy = False, Interval = 600, RetryInterval = None,
        SourceRef = \<lparr>src_Kind = ''GitRepository'', src_Name = ''repo'', src_Namespace = []\<rparr>,
        Suspend = False, Force = False, WriteOutputsToSecret = None, DependsOn = []\<rparr>,
      Status = \<lparr>ObservedGeneration = 2, Conditions = [example_ready, example_apply],
        LastAppliedRevision = ''main/aaa'', LastAttemptedRevision = ''main/aaa'',
        LastPlannedRevision = ''main/aaa'', LastDriftDetectedAt = Some 9,
        LastAppliedByDriftDetectionAt = None, AvailableOutputs = [],
        Plan = \<lparr>LastApplied = ''plan-main-000'', Pending = ''plan-main-aaa'',
                 IsDestroyPlan = False, IsDriftDetectionPlan = True\<rparr>,
        Inventory = None, Lock = \<lparr>lock_LastApplied = [], lock_Pending = []\<rparr>\<rparr>\<rparr>"

text \<open>
  Stand-ins for the digest functions: they return the SHA-256 and the SHA-1 digest of the
  empty input, which is the only input the examples hash.
\<close>

definition sha256_of_empty :: "8 word list" where
  "sha256_of_empty =
     [227, 176, 196, 66, 152, 252, 28, 20, 154, 251, 244, 200, 153, 111, 185, 36, 39,
      174, 65, 228, 100, 155, 147, 76, 164, 149, 153, 27, 120, 82, 184, 85]"

definition sha1_of_empty :: "8 word list" where
  "sha1_of_empty =
     [218, 57, 163, 238, 94, 107, 75, 13, 50, 85, 191, 239, 149, 96, 24, 144, 175, 216,
      7, 9]"

definition example_hashers :: Hashers where
  "example_hashers = \<lparr>sha1_Sum = (\<lambda>bs. sha1_of_empty), sha256_Sum = (\<lambda>bs. sha256_of_empty)\<rparr>"

definition example_artifact :: Artifact where
  "example_artifact =
     \<lparr>URL = ''http://source-controller/repo/aaa.tar.gz'', Revision = ''main/aaa'',
      Checksum = ''e3b0c44298fc1c149afbf4c8996fb92427ae41e4649b934ca495991b7852b855''\<rparr>"

definition example_http :: "Reader \<Rightarrow> HttpEnv" where
  "example_http body =
     \<lparr>SOURCE_CONTROLLER_LOCALHOST = [], ParseAndSetHost = (\<lambda>u h. Inr u),
      NewRequest = (\<lambda>u. None),
      Do = (\<lambda>u. Inr \<lparr>StatusCode = 200, StatusText = ''200 OK'', Body = body\<rparr>)\<rparr>"

text \<open>A dependent \<open>app\<close> that depends on \<open>db\<close> and shares its source; \<open>db\<close> carries a
  Ready condition that is True, but its observed generation lags behind its generation.
  The source's current revision is \<open>main/bbb\<close>; \<open>db\<close> last planned and applied
  \<open>main/aaa\<close>.\<close>

definition example_source :: Source where
  "example_source = \<lparr>GetArtifact = Some \<lparr>URL = ''http://source-controller/repo/bbb.tar.gz'',
     Revision = ''main/bbb'',
     Checksum = ''e3b0c44298fc1c149afbf4c8996fb92427ae41e4649b934ca495991b7852b855''\<rparr>\<rparr>"

definition example_dependency :: Terraform where
  "example_dependency =
     \<lparr>Name = ''db'', Namespace = ''default'', Generation = 3, DeletionTimestamp = None,
      Finalizers = [''finalizers.tf.contrib.fluxcd.io''],
      Spec = \<lparr>ApprovePlan = ''auto'', Destroy = False, Interval = 600, RetryInterval = None,
        SourceRef = \<lparr>src_Kind = ''GitRepository'', src_Name = ''repo'', src_Namespace = []\<rparr>,
        Suspend = False, Force = False, WriteOutputsToSecret = None, DependsOn = []\<rparr>,
      Status = \<lparr>ObservedGeneration = 2, Conditions = [example_ready],
        LastAppliedRevision = ''main/aaa'', LastAttemptedRevision = ''main/aaa'',
        LastPlannedRevision = ''main/aaa'', LastDriftDetectedAt = None,
        LastAppliedByDriftDetectionAt = None, AvailableOutputs = [],
        Plan = \<lparr>LastApplied = ''plan-main-aaa'', Pending = [],
                 IsDestroyPlan = False, IsDriftDetectionPlan = False\<rparr>,
        Inventory = None, Lock = \<lparr>lock_LastApplied = [], lock_Pending = []\<rparr>\<rparr>\<rparr>"

definition example_dependent :: Terraform where
  "example_dependent =
     \<lparr>Name = ''app'', Namespace = ''default'', Generation = 1, DeletionTimestamp = None,
      Finalizers = [''finalizers.tf.contrib.fluxcd.io''],
      Spec = \<lparr>ApprovePlan = [], Destroy = False, Interval = 600, RetryInterval = Some 60,
        SourceRef = \<lparr>src_Kind = ''GitRepository'', src_Name = ''repo'', src_Namespace = []\<rparr>,
        Suspend = False, Force = False, WriteOutputsToSecret = None,
        DependsOn = [\<lparr>ref_Namespace = [], ref_Name = ''db''\<rparr>]\<rparr>,
      Status = \<lparr>ObservedGeneration = 0, Conditions = [],
        LastAppliedRevision = [], LastAttemptedRevision = [],
        LastPlannedRevision = [], LastDriftDetectedAt = None,
        LastAppliedByDriftDetectionAt = None, AvailableOutputs = [],
        Plan = \<lparr>LastApplied = [], Pending = [],
                 IsDestroyPlan = False, IsDriftDetectionPlan = False\<rparr>,
        Inventory = None, Lock = \<lparr>lock_LastApplied = [], lock_Pending = []\<rparr>\<rparr>\<rparr>"

text \<open>A reconciler whose API server stores the given dependency under default/db.\<close>

definition example_reconciler :: "Terraform \<Rightarrow> (Terraform \<Rightarrow> error + Terraform) \<Rightarrow> TerraformReconciler" where
  "example_reconciler dependency patch =
     \<lparr>Get_Terraform = (\<lambda>n. if n = \<lparr>nn_Namespace = ''default'', nn_Name = ''db''\<rparr>
                             then Inr dependency
                             else Inl (NotFound ''not found'')),
      Patch_Terraform = patch,
      Status_Patch = (\<lambda>t. None),
      Get_Secret = (\<lambda>n. None),
      Get_GitRepository = (\<lambda>n. Inr example_source),
      Get_Bucket = (\<lambda>n. Inl (NotFound ''not found'')),
      Get_OCIRepository = (\<lambda>n. Inl (NotFound ''not found'')),
      LookupOrCreateRunner = (\<lambda>t. None),
      finalize = (\<lambda>t s. (NoRequeue, None)),
      reconcile = (\<lambda>t s. (t, None)),
      forceOrAutoApply = spec_forceOrAutoApply,
      shouldApply = spec_shouldApply,
      SourceRef_String = (\<lambda>ref. src_Kind ref @ ''/'' @ src_Name ref),
      Duration_String = (\<lambda>d. ''1m0s''),
      Now = (\<lambda>k. 40 + int k)\<rparr>"

text \<open>The same dependency once it has observed its current generation and carries the
  back-reference finalizer of \<open>app\<close>.\<close>

definition example_dependency_ready :: Terraform where
  "example_dependency_ready =
     example_dependency\<lparr>Finalizers := [''finalizers.tf.contrib.fluxcd.io'', ''tf.dependency.of.app''],
       Status := (Status example_dependency)\<lparr>ObservedGeneration := 3\<rparr>\<rparr>"

text \<open>
  The loop on the example object \<open>app\<close>. The API server stores it under \<open>default/app\<close>
  and accepts every patch, the source is at the given revision, the runner is acquired,
  and the plan/apply/drift cycle is the given function: \<open>example_no_changes\<close> returns the
  object as it received it, \<open>example_new_plan\<close> returns it with a new pending plan.
  \<open>example_progressing\<close> is the object after the loop flipped its readiness to
  Progressing, \<open>example_cleared\<close> the same object once its pending plan was cleared.
\<close>

definition example_key :: NamespacedName where
  "example_key = \<lparr>nn_Namespace = ''default'', nn_Name = ''app''\<rparr>"

definition example_loop_artifact :: "string \<Rightarrow> Artifact" where
  "example_loop_artifact revision =
     \<lparr>URL = ''http://source-controller/repo/latest.tar.gz'', Revision = revision,
      Checksum = ''e3b0c44298fc1c149afbf4c8996fb92427ae41e4649b934ca495991b7852b855''\<rparr>"

definition example_loop_reconciler ::
  "string \<Rightarrow> (Terraform \<Rightarrow> Source \<Rightarrow> Terraform \<times> error option) \<Rightarrow> TerraformReconciler" where
  "example_loop_reconciler revision cycle =
     (example_reconciler example_dependency Inr)
       \<lparr>Get_Terraform := (\<lambda>n. if n = example_key then Inr example_terraform
                               else Inl (NotFound ''not found'')),
        Get_GitRepository :=
          (\<lambda>n. Inr \<lparr>GetArtifact = Some (example_loop_artifact revision)\<rparr>),
        reconcile := cycle\<rparr>"

definition example_progressing :: Terraform where
  "example_progressing = TerraformProgressing 44 example_terraform ''Reconciliation in progress''"

definition example_cleared :: Terraform where
  "example_cleared = example_progressing\<lparr>Status := (Status example_progressing)
     \<lparr>Plan := (Plan (Status example_progressing))\<lparr>Pending := []\<rparr>\<rparr>\<rparr>"

definition example_no_changes :: "Terraform \<Rightarrow> Source \<Rightarrow> Terraform \<times> error option" where
  "example_no_changes t s = (t, None)"

definition example_new_plan :: "Terraform \<Rightarrow> Source \<Rightarrow> Terraform \<times> error option" where
  "example_new_plan t s =
     (t\<lparr>Status := (Status t)\<lparr>Plan := (Plan (Status t))\<lparr>Pending := ''plan-main-bbb''\<rparr>\<rparr>\<rparr>, None)"

section \<open>Properties\<close>

subsection \<open>Helper lemmas\<close>

lemma HasDrift_loop_iff:
  "HasDrift_loop lastDrift cs =
     (\<exists>c \<in> set cs. cond_Type c = ConditionTypeApply \<and> cond_Status c = ConditionTrue \<and>
        (\<exists>d. lastDrift = Some d \<and> cond_LastTransitionTime c < d))"
  by (induction cs) (auto simp: After_def)

lemma HasDrift_Bex:
  "HasDrift t \<longleftrightarrow>
      (\<exists>c \<in> set (Conditions (Status t)).
         cond_Type c = ConditionTypeApply \<and> cond_Status c = ConditionTrue \<and>
         (\<exists>d. LastDriftDetectedAt (Status t) = Some d \<and> After d (cond_LastTransitionTime c)))"
  unfolding HasDrift_def HasDrift_loop_iff After_def ..

lemma HasDrift_perm:
  assumes "mset cs' = mset (Conditions (Status t))"
  shows "HasDrift (t\<lparr>Status := (Status t)\<lparr>Conditions := cs'\<rparr>\<rparr>) = HasDrift t"
proof -
  from assms have "set cs' = set (Conditions (Status t))" by (rule mset_eq_setD)
  then show ?thesis by (simp add: HasDrift_def HasDrift_loop_iff)
qed

lemma Status_SetTerraformReadiness [simp]:
  "Plan (Status (SetTerraformReadiness now t st reason msg revision)) = Plan (Status t)"
  "Inventory (Status (SetTerraformReadiness now t st reason msg revision)) = Inventory (Status t)"
  "LastAppliedByDriftDetectionAt (Status (SetTerraformReadiness now t st reason msg revision))
     = LastAppliedByDriftDetectionAt (Status t)"
  "Spec (SetTerraformReadiness now t st reason msg revision) = Spec t"
  by (simp_all add: SetTerraformReadiness_def)

subsection \<open>Drift\<close>

text \<open>
  Claim C1. For every Terraform object, \<open>HasDrift\<close> is true exactly when some condition
  of type Apply has status True and the recorded \<open>LastDriftDetectedAt\<close> is strictly after
  that condition's last transition time. It is false when no drift time is recorded and
  when no Apply condition is True, and it gives the same answer for every reordering of
  the conditions list.
\<close>

theorem HasDrift_iff:
  "(HasDrift t \<longleftrightarrow>
      (\<exists>c \<in> set (Conditions (Status t)).
         cond_Type c = ConditionTypeApply \<and> cond_Status c = ConditionTrue \<and>
         (\<exists>d. LastDriftDetectedAt (Status t) = Some d \<and> After d (cond_LastTransitionTime c)))) \<and>
   (LastDriftDetectedAt (Status t) = None \<longrightarrow> \<not> HasDrift t) \<and>
   ((\<forall>c \<in> set (Conditions (Status t)).
       \<not> (cond_Type c = ConditionTypeApply \<and> cond_Status c = ConditionTrue)) \<longrightarrow> \<not> HasDrift t) \<and>
   (\<forall>cs'. mset cs' = mset (Conditions (Status t)) \<longrightarrow>
       HasDrift (t\<lparr>Status := (Status t)\<lparr>Conditions := cs'\<rparr>\<rparr>) = HasDrift t)"
proof (intro conjI allI impI)
  show "HasDrift t \<longleftrightarrow>
      (\<exists>c \<in> set (Conditions (Status t)).
         cond_Type c = ConditionTypeApply \<and> cond_Status c = ConditionTrue \<and>
         (\<exists>d. LastDriftDetectedAt (Status t) = Some d \<and> After d (cond_LastTransitionTime c)))"
    by (rule HasDrift_Bex)
next
  assume "LastDriftDetectedAt (Status t) = None"
  then show "\<not> HasDrift t" by (simp add: HasDrift_Bex)
next
  assume "\<forall>c \<in> set (Conditions (Status t)).
       \<not> (cond_Type c = ConditionTypeApply \<and> cond_Status c = ConditionTrue)"
  then show "\<not> HasDrift t" unfolding HasDrift_Bex by blast
next
  fix cs' assume "mset cs' = mset (Conditions (Status t))"
  then show "HasDrift (t\<lparr>Status := (Status t)\<lparr>Conditions := cs'\<rparr>\<rparr>) = HasDrift t"
    by (rule HasDrift_perm)
qed

theorem HasDrift_iff_witness:
  "HasDrift example_terraform \<and>
   HasDrift (example_terraform\<lparr>Status := (Status example_terraform)
                \<lparr>Conditions := [example_apply, example_ready]\<rparr>\<rparr>) \<and>
   \<not> HasDrift (example_terraform\<lparr>Status := (Status example_terraform)
                \<lparr>LastDriftDetectedAt := None\<rparr>\<rparr>)"
proof -
  have m: "mset [example_apply, example_ready] = mset (Conditions (Status example_terraform))"
    by (simp add: example_terraform_def)
  have a: "HasDrift example_terraform"
    using HasDrift_iff [of example_terraform]
    by (simp add: example_terraform_def example_apply_def example_ready_def
        ConditionTypeApply_def After_def)
  have b: "HasDrift (example_terraform\<lparr>Status := (Status example_terraform)
                \<lparr>Conditions := [example_apply, example_ready]\<rparr>\<rparr>)"
    using HasDrift_iff [of example_terraform] m a by blast
  have c: "\<not> HasDrift (example_terraform\<lparr>Status := (Status example_terraform)
                \<lparr>LastDriftDetectedAt := None\<rparr>\<rparr>)"
    using HasDrift_iff [of "example_terraform\<lparr>Status := (Status example_terraform)
                \<lparr>LastDriftDetectedAt := None\<rparr>\<rparr>"] by simp
  from a b c show ?thesis by blast
qed

subsection \<open>Retry interval\<close>

text \<open>
  Claim C10. \<open>GetRetryInterval\<close> returns the duration of \<open>Spec.RetryInterval\<close> when one
  is set and falls back to the duration of \<open>Spec.Interval\<close> when it is not.
\<close>

theorem GetRetryInterval_fallback:
  "(\<forall>d. RetryInterval (Spec t) = Some d \<longrightarrow> GetRetryInterval t = d) \<and>
   (RetryInterval (Spec t) = None \<longrightarrow> GetRetryInterval t = Interval (Spec t))"
  by (simp add: GetRetryInterval_def)

theorem GetRetryInterval_fallback_witness:
  "GetRetryInterval example_terraform = 600 \<and>
   GetRetryInterval (example_terraform\<lparr>Spec := (Spec example_terraform)
                        \<lparr>RetryInterval := Some 60\<rparr>\<rparr>) = 60"
  using GetRetryInterval_fallback [of example_terraform]
        GetRetryInterval_fallback [of "example_terraform\<lparr>Spec := (Spec example_terraform)
                        \<lparr>RetryInterval := Some 60\<rparr>\<rparr>"]
  by (simp add: example_terraform_def)

subsection \<open>Plan identifiers\<close>

text \<open>
  Claim C9. For the revision \<open>main/abcdefabcdefabcdefabcdefabcdefabcdefabcd\<close> and the
  message \<open>msg\<close>, \<open>GetPlanIdAndApproveMessage\<close> returns the plan id
  \<open>plan-main-abcdefabcdefabcdefabcdefabcdefabcdefabcd\<close> and an approval message that
  quotes the short plan id \<open>plan-main-abcdefabcd\<close>.
\<close>

theorem GetPlanIdAndApproveMessage_example:
  "GetPlanIdAndApproveMessage ''main/abcdefabcdefabcdefabcdefabcdefabcdefabcd'' ''msg'' =
     (''plan-main-abcdefabcdefabcdefabcdefabcdefabcdefabcd'',
      ''msg: set approvePlan: '' @ [CHR 0x22] @ ''plan-main-abcdefabcd'' @ [CHR 0x22]
        @ '' to approve this plan.'')"
  by (simp add: GetPlanIdAndApproveMessage_def SplitN2_def)

subsection \<open>Applied\<close>

text \<open>
  Claim C5. \<open>TerraformApplied\<close> moves the pending plan id into \<open>Plan.LastApplied\<close> and
  clears \<open>Plan.Pending\<close>, records whether the apply was a destroy apply, replaces the
  inventory exactly when the supplied entries are non-empty, and stamps
  \<open>LastAppliedByDriftDetectionAt\<close> (with the clock reading taken for it) exactly when the
  plan being applied was flagged as a drift-detection plan.
\<close>

theorem TerraformApplied_spec:
  "LastApplied (Plan (Status (TerraformApplied clock t revision message isDestroyApply entries)))
     = Pending (Plan (Status t)) \<and>
   Pending (Plan (Status (TerraformApplied clock t revision message isDestroyApply entries))) = [] \<and>
   IsDestroyPlan (Plan (Status (TerraformApplied clock t revision message isDestroyApply entries)))
     = isDestroyApply \<and>
   (entries \<noteq> [] \<longrightarrow>
      Inventory (Status (TerraformApplied clock t revision message isDestroyApply entries))
        = Some \<lparr>Entries = entries\<rparr>) \<and>
   (entries = [] \<longrightarrow>
      Inventory (Status (TerraformApplied clock t revision message isDestroyApply entries))
        = Inventory (Status t)) \<and>
   (IsDriftDetectionPlan (Plan (Status t)) \<longrightarrow>
      LastAppliedByDriftDetectionAt
        (Status (TerraformApplied clock t revision message isDestroyApply entries))
        = Some (clock 1)) \<and>
   (\<not> IsDriftDetectionPlan (Plan (Status t)) \<longrightarrow>
      LastAppliedByDriftDetectionAt
        (Status (TerraformApplied clock t revision message isDestroyApply entries))
        = LastAppliedByDriftDetectionAt (Status t))"
  by (simp add: TerraformApplied_def Let_def)

theorem TerraformApplied_spec_witness:
  "Status (TerraformApplied (\<lambda>k. 20 + int k) example_terraform ''main/aaa'' ''Applied successfully''
      False [ResourceRef ''aws_instance.web'']) =
   \<lparr>ObservedGeneration = 2,
    Conditions = [example_ready\<lparr>cond_Status := ConditionUnknown, cond_LastTransitionTime := 22,
                     cond_Reason := ''TerraformAppliedSucceed'',
                     cond_Message := ''Applied successfully: main/aaa''\<rparr>, example_apply],
    LastAppliedRevision = ''main/aaa'', LastAttemptedRevision = ''main/aaa'',
    LastPlannedRevision = ''main/aaa'', LastDriftDetectedAt = Some 9,
    LastAppliedByDriftDetectionAt = Some 21, AvailableOutputs = [],
    Plan = \<lparr>LastApplied = ''plan-main-aaa'', Pending = [],
             IsDestroyPlan = False, IsDriftDetectionPlan = False\<rparr>,
    Inventory = Some \<lparr>Entries = [ResourceRef ''aws_instance.web'']\<rparr>,
    Lock = \<lparr>lock_LastApplied = [], lock_Pending = []\<rparr>\<rparr>"
  using TerraformApplied_spec [of "\<lambda>k. 20 + int k" example_terraform "''main/aaa''"
      "''Applied successfully''" False "[ResourceRef ''aws_instance.web'']"]
  by (simp add: TerraformApplied_def SetTerraformReadiness_def example_terraform_def
      example_ready_def example_apply_def newCondition_def updateExisting_def IsZero_def
      trimString_def MaxConditionMessageLength_def ConditionTypeApply_def ReadyCondition_def
      TFExecApplySucceedReason_def Let_def)

subsection \<open>Conditions\<close>

lemma cond_Type_updateExisting [simp]:
  "cond_Type (updateExisting now old new) = cond_Type old"
  by (simp add: updateExisting_def Let_def)

lemma Find_SetStatusCondition:
  "FindStatusCondition (SetStatusCondition now cs new) (cond_Type new) =
     Some (case FindStatusCondition cs (cond_Type new) of
             None \<Rightarrow> (if IsZero (cond_LastTransitionTime new)
                       then new\<lparr>cond_LastTransitionTime := now\<rparr> else new)
           | Some old \<Rightarrow> updateExisting now old new)"
  by (induction cs) simp_all

lemma Find_SetStatusCondition_other:
  "ty \<noteq> cond_Type new \<Longrightarrow>
   FindStatusCondition (SetStatusCondition now cs new) ty = FindStatusCondition cs ty"
  by (induction cs) auto

lemma length_SetStatusCondition:
  "length (SetStatusCondition now cs new) =
     (case FindStatusCondition cs (cond_Type new) of
        None \<Rightarrow> Suc (length cs) | Some old \<Rightarrow> length cs)"
  by (induction cs) (auto split: option.splits)

lemma length_trimString:
  "length (trimString str limit) = (if length str \<le> limit then length str else limit + 3)"
  by (simp add: trimString_def)

lemma Find_SetTerraformReadiness:
  "FindStatusCondition (Conditions (Status (SetTerraformReadiness now t st reason message revision)))
      ReadyCondition =
     Some (case FindStatusCondition (Conditions (Status t)) ReadyCondition of
             None \<Rightarrow> (newCondition ReadyCondition st reason
                         (trimString message MaxConditionMessageLength))
                       \<lparr>cond_LastTransitionTime := now\<rparr>
           | Some old \<Rightarrow> updateExisting now old
                 (newCondition ReadyCondition st reason
                    (trimString message MaxConditionMessageLength)))"
proof -
  have ty: "cond_Type (newCondition ReadyCondition st reason
               (trimString message MaxConditionMessageLength)) = ReadyCondition"
    by (simp add: newCondition_def)
  have z: "IsZero (cond_LastTransitionTime (newCondition ReadyCondition st reason
               (trimString message MaxConditionMessageLength)))"
    by (simp add: newCondition_def IsZero_def)
  show ?thesis
    using Find_SetStatusCondition [of now "Conditions (Status t)"
        "newCondition ReadyCondition st reason (trimString message MaxConditionMessageLength)"]
    by (simp add: SetTerraformReadiness_def ty z)
qed

text \<open>
  Claim C3, as amended. Setting a condition is an upsert keyed by the condition type: an
  existing condition of that type is updated in place (the list keeps its length), a
  missing one is appended with the current time. The status, reason and message become
  the new ones. The last transition time is kept whenever the status is unchanged,
  whether or not the reason or the message change, and becomes the current time when the
  status changes (for a condition that carries no transition time of its own, as every
  condition the source builds).
\<close>

theorem SetStatusCondition_upsert:
  "(\<forall>old. FindStatusCondition conditions (cond_Type new) = Some old \<longrightarrow>
      (\<exists>c. FindStatusCondition (SetStatusCondition now conditions new) (cond_Type new) = Some c \<and>
           cond_Status c = cond_Status new \<and> cond_Reason c = cond_Reason new \<and>
           cond_Message c = cond_Message new \<and>
           (cond_Status new = cond_Status old \<longrightarrow>
              cond_LastTransitionTime c = cond_LastTransitionTime old) \<and>
           (cond_Status new \<noteq> cond_Status old \<and> IsZero (cond_LastTransitionTime new) \<longrightarrow>
              cond_LastTransitionTime c = now)) \<and>
      length (SetStatusCondition now conditions new) = length conditions) \<and>
   (FindStatusCondition conditions (cond_Type new) = None \<and>
    IsZero (cond_LastTransitionTime new) \<longrightarrow>
      SetStatusCondition now conditions new
        = conditions @ [new\<lparr>cond_LastTransitionTime := now\<rparr>])"
proof (intro conjI allI impI)
  fix old assume f: "FindStatusCondition conditions (cond_Type new) = Some old"
  show "\<exists>c. FindStatusCondition (SetStatusCondition now conditions new) (cond_Type new) = Some c \<and>
           cond_Status c = cond_Status new \<and> cond_Reason c = cond_Reason new \<and>
           cond_Message c = cond_Message new \<and>
           (cond_Status new = cond_Status old \<longrightarrow>
              cond_LastTransitionTime c = cond_LastTransitionTime old) \<and>
           (cond_Status new \<noteq> cond_Status old \<and> IsZero (cond_LastTransitionTime new) \<longrightarrow>
              cond_LastTransitionTime c = now)"
    using f by (auto simp: Find_SetStatusCondition updateExisting_def Let_def)
  show "length (SetStatusCondition now conditions new) = length conditions"
    using f by (simp add: length_SetStatusCondition)
next
  assume "FindStatusCondition conditions (cond_Type new) = None \<and>
    IsZero (cond_LastTransitionTime new)"
  then show "SetStatusCondition now conditions new
        = conditions @ [new\<lparr>cond_LastTransitionTime := now\<rparr>]"
    by (induction conditions) (auto split: if_splits)
qed

theorem SetStatusCondition_upsert_witness:
  "SetStatusCondition 30 [example_ready, example_apply]
     (newCondition ''Ready'' ConditionFalse ''DriftDetected'' ''drift'') =
     [example_ready\<lparr>cond_Status := ConditionFalse, cond_LastTransitionTime := 30,
        cond_Reason := ''DriftDetected'', cond_Message := ''drift''\<rparr>, example_apply] \<and>
   SetStatusCondition 30 [example_apply]
     (newCondition ''Ready'' ConditionFalse ''DriftDetected'' ''drift'') =
     [example_apply, (newCondition ''Ready'' ConditionFalse ''DriftDetected'' ''drift'')
        \<lparr>cond_LastTransitionTime := 30\<rparr>]"
  using SetStatusCondition_upsert [of "[example_ready, example_apply]"
          "newCondition ''Ready'' ConditionFalse ''DriftDetected'' ''drift''" 30]
        SetStatusCondition_upsert [of "[example_apply]"
          "newCondition ''Ready'' ConditionFalse ''DriftDetected'' ''drift''" 30]
  by (simp add: example_ready_def example_apply_def newCondition_def updateExisting_def
      IsZero_def Let_def)

text \<open>
  The claim as stated, "changing any field of the condition bumps the last transition
  time", fails: the example object holds a Ready condition that has been True since
  time 3; setting readiness to True again at time 30 with another reason and another
  message stores the new reason and message and leaves the transition time at 3.
\<close>

theorem SetTerraformReadiness_reason_change_counterexample:
  "FindStatusCondition (Conditions (Status example_terraform)) ReadyCondition =
     Some \<lparr>cond_Type = ''Ready'', cond_Status = ConditionTrue, cond_ObservedGeneration = 0,
           cond_LastTransitionTime = 3, cond_Reason = ''TerraformOutputsWritten'',
           cond_Message = ''Outputs written: main/aaa''\<rparr> \<and>
   FindStatusCondition
     (Conditions (Status (SetTerraformReadiness 30 example_terraform ConditionTrue
        ''NoDrift'' ''No drift: main/aaa'' ''main/aaa''))) ReadyCondition =
     Some \<lparr>cond_Type = ''Ready'', cond_Status = ConditionTrue, cond_ObservedGeneration = 0,
           cond_LastTransitionTime = 3, cond_Reason = ''NoDrift'',
           cond_Message = ''No drift: main/aaa''\<rparr>"
  by (simp add: example_terraform_def example_ready_def example_apply_def
      SetTerraformReadiness_def newCondition_def updateExisting_def IsZero_def Let_def
      ReadyCondition_def trimString_def MaxConditionMessageLength_def)

text \<open>
  Claim C8, as amended. The message recorded on the Ready condition is \<open>trimString\<close> of
  the input at \<open>MaxConditionMessageLength\<close>: the input itself when it has at most 20000
  characters, and otherwise its first 20000 characters followed by a three-character
  ellipsis, so the stored message has at most 20003 characters.
\<close>

theorem trimString_bound:
  "length (trimString message MaxConditionMessageLength) \<le> 20003 \<and>
   (length message \<le> 20000 \<longrightarrow> trimString message MaxConditionMessageLength = message) \<and>
   (20000 < length message \<longrightarrow>
      trimString message MaxConditionMessageLength = take 20000 message @ ''...'' \<and>
      length (trimString message MaxConditionMessageLength) = 20003) \<and>
   (\<exists>c. FindStatusCondition
          (Conditions (Status (SetTerraformReadiness now t st reason message revision)))
          ReadyCondition = Some c \<and>
        cond_Message c = trimString message MaxConditionMessageLength)"
proof (intro conjI impI)
  show "length (trimString message MaxConditionMessageLength) \<le> 20003"
    by (simp add: length_trimString MaxConditionMessageLength_def)
  show "trimString message MaxConditionMessageLength = message" if "length message \<le> 20000"
    using that by (simp add: trimString_def MaxConditionMessageLength_def)
  show "trimString message MaxConditionMessageLength = take 20000 message @ ''...''"
    if "20000 < length message"
    using that by (simp add: trimString_def MaxConditionMessageLength_def)
  show "length (trimString message MaxConditionMessageLength) = 20003"
    if "20000 < length message"
    using that by (simp add: length_trimString MaxConditionMessageLength_def)
  show "\<exists>c. FindStatusCondition
          (Conditions (Status (SetTerraformReadiness now t st reason message revision)))
          ReadyCondition = Some c \<and>
        cond_Message c = trimString message MaxConditionMessageLength"
    by (simp add: Find_SetTerraformReadiness newCondition_def updateExisting_def Let_def
        split: option.split)
qed

theorem trimString_bound_witness:
  "trimString ''Applied successfully'' MaxConditionMessageLength = ''Applied successfully'' \<and>
   trimString (replicate 20005 (CHR ''x'')) MaxConditionMessageLength
     = replicate 20000 (CHR ''x'') @ ''...''"
proof -
  have a: "length ''Applied successfully'' \<le> 20000" by simp
  have b: "20000 < length (replicate 20005 (CHR ''x''))" by simp
  have c: "take 20000 (replicate 20005 (CHR ''x'')) = replicate 20000 (CHR ''x'')"
    by (simp add: take_replicate)
  show ?thesis
    using trimString_bound [of "''Applied successfully''"] a
          trimString_bound [of "replicate 20005 (CHR ''x'')"] b c
    by metis
qed

text \<open>
  The claim as stated, "the stored message is at most 20000 characters long", fails for
  a message of 20001 characters: the stored message has 20003.
\<close>

theorem trimString_exceeds_counterexample:
  "length (replicate 20001 (CHR ''x'')) = 20001 \<and>
   map_option (\<lambda>c. length (cond_Message c))
     (FindStatusCondition
        (Conditions (Status (SetTerraformReadiness 30 example_terraform ConditionFalse
           ''TFExecPlanFailed'' (replicate 20001 (CHR ''x'')) ''main/aaa''))) ReadyCondition)
     = Some 20003"
proof -
  have "FindStatusCondition (Conditions (Status example_terraform)) ReadyCondition
          = Some example_ready"
    by (simp add: example_terraform_def example_ready_def ReadyCondition_def)
  then show ?thesis
    by (simp add: Find_SetTerraformReadiness newCondition_def updateExisting_def Let_def
        length_trimString MaxConditionMessageLength_def)
qed

subsection \<open>Artifact verification\<close>

lemma hex_sha256_of_empty:
  "hex sha256_of_empty = ''e3b0c44298fc1c149afbf4c8996fb92427ae41e4649b934ca495991b7852b855''"
  by (simp add: hex_def hexbyte_def hexdigit_def sha256_of_empty_def)

lemma hex_sha1_of_empty:
  "hex sha1_of_empty = ''da39a3ee5e6b4b0d3255bfef95601890afd80709''"
  by (simp add: hex_def hexbyte_def hexdigit_def sha1_of_empty_def)

text \<open>
  Claim C4, as amended. The hash function is selected by the length of the declared
  checksum: exactly 40 characters select SHA-1, any other length selects SHA-256. When
  the body is read to its end without an error, \<open>verifyArtifact\<close> returns an error
  exactly when the lower-case hexadecimal digest differs from the declared checksum as a
  string. An error of the reader is returned as it is, before any digest is compared.
  \<open>downloadAsBytes\<close> returns bytes only for a response with status 200 whose body was
  read without error and verified; in every other case it returns an error and no bytes.
\<close>

theorem verifyArtifact_spec:
  "(rd_Err reader = None \<and> length (Checksum artifact) = 40 \<longrightarrow>
      (snd (verifyArtifact H artifact buf reader) = None \<longleftrightarrow>
         hex (sha1_Sum H (rd_Data reader)) = Checksum artifact)) \<and>
   (rd_Err reader = None \<and> length (Checksum artifact) \<noteq> 40 \<longrightarrow>
      (snd (verifyArtifact H artifact buf reader) = None \<longleftrightarrow>
         hex (sha256_Sum H (rd_Data reader)) = Checksum artifact)) \<and>
   (\<forall>e. rd_Err reader = Some e \<longrightarrow> snd (verifyArtifact H artifact buf reader) = Some e) \<and>
   (\<forall>bytes. downloadAsBytes env H artifact = Inr bytes \<longrightarrow>
      (\<exists>artifactURL resp. Do env artifactURL = Inr resp \<and> StatusCode resp = 200 \<and>
         rd_Err (Body resp) = None \<and> bytes = rd_Data (Body resp) \<and>
         hex ((if length (Checksum artifact) = 40 then sha1_Sum H else sha256_Sum H) bytes)
           = Checksum artifact))"
proof (intro conjI allI impI)
  assume "rd_Err reader = None \<and> length (Checksum artifact) = 40"
  then show "snd (verifyArtifact H artifact buf reader) = None \<longleftrightarrow>
         hex (sha1_Sum H (rd_Data reader)) = Checksum artifact"
    by (simp add: verifyArtifact_def Let_def)
next
  assume "rd_Err reader = None \<and> length (Checksum artifact) \<noteq> 40"
  then show "snd (verifyArtifact H artifact buf reader) = None \<longleftrightarrow>
         hex (sha256_Sum H (rd_Data reader)) = Checksum artifact"
    by (simp add: verifyArtifact_def Let_def)
next
  fix e assume "rd_Err reader = Some e"
  then show "snd (verifyArtifact H artifact buf reader) = Some e"
    by (simp add: verifyArtifact_def Let_def)
next
  fix bytes assume d: "downloadAsBytes env H artifact = Inr bytes"
  then obtain artifactURL resp where
      do: "Do env artifactURL = Inr resp" and ok: "StatusCode resp = 200" and
      v: "verifyArtifact H artifact [] (Body resp) = (bytes, None)"
    by (auto simp: downloadAsBytes_def split: sum.splits option.splits if_splits prod.splits)
  from v have "rd_Err (Body resp) = None \<and> bytes = rd_Data (Body resp) \<and>
       hex ((if length (Checksum artifact) = 40 then sha1_Sum H else sha256_Sum H) bytes)
         = Checksum artifact"
    by (auto simp: verifyArtifact_def Let_def split: option.splits if_splits)
  with do ok show "\<exists>artifactURL resp. Do env artifactURL = Inr resp \<and> StatusCode resp = 200 \<and>
         rd_Err (Body resp) = None \<and> bytes = rd_Data (Body resp) \<and>
         hex ((if length (Checksum artifact) = 40 then sha1_Sum H else sha256_Sum H) bytes)
           = Checksum artifact"
    by blast
qed

theorem verifyArtifact_spec_witness:
  "downloadAsBytes (example_http \<lparr>rd_Data = [], rd_Err = None\<rparr>) example_hashers
     example_artifact = Inr [] \<and>
   snd (verifyArtifact example_hashers
          (example_artifact\<lparr>Checksum := ''da39a3ee5e6b4b0d3255bfef95601890afd80709''\<rparr>) []
          \<lparr>rd_Data = [], rd_Err = None\<rparr>) = None \<and>
   snd (verifyArtifact example_hashers
          (example_artifact\<lparr>Checksum :=
             ''E3B0C44298FC1C149AFBF4C8996FB92427AE41E4649B934CA495991B7852B855''\<rparr>) []
          \<lparr>rd_Data = [], rd_Err = None\<rparr>) \<noteq> None"
proof -
  have a: "downloadAsBytes (example_http \<lparr>rd_Data = [], rd_Err = None\<rparr>) example_hashers
     example_artifact = Inr []"
    by (simp add: downloadAsBytes_def example_http_def verifyArtifact_def example_hashers_def
        example_artifact_def hex_sha256_of_empty Let_def)
  have b: "snd (verifyArtifact example_hashers
          (example_artifact\<lparr>Checksum := ''da39a3ee5e6b4b0d3255bfef95601890afd80709''\<rparr>) []
          \<lparr>rd_Data = [], rd_Err = None\<rparr>) = None"
    using verifyArtifact_spec [of "\<lparr>rd_Data = [], rd_Err = None\<rparr>"
        "example_artifact\<lparr>Checksum := ''da39a3ee5e6b4b0d3255bfef95601890afd80709''\<rparr>"
        example_hashers "[]"]
    by (simp add: example_hashers_def example_artifact_def hex_sha1_of_empty)
  have c: "snd (verifyArtifact example_hashers
          (example_artifact\<lparr>Checksum :=
             ''E3B0C44298FC1C149AFBF4C8996FB92427AE41E4649B934CA495991B7852B855''\<rparr>) []
          \<lparr>rd_Data = [], rd_Err = None\<rparr>) \<noteq> None"
    using verifyArtifact_spec [of "\<lparr>rd_Data = [], rd_Err = None\<rparr>"
        "example_artifact\<lparr>Checksum :=
             ''E3B0C44298FC1C149AFBF4C8996FB92427AE41E4649B934CA495991B7852B855''\<rparr>"
        example_hashers "[]"]
    by (simp add: example_hashers_def example_artifact_def hex_sha256_of_empty)
  from a b c show ?thesis by blast
qed

text \<open>
  The claim as stated, "\<open>verifyArtifact\<close> returns an error if and only if the computed
  digest does not equal the declared checksum", fails when the read itself fails: the
  declared checksum is the SHA-256 digest of the empty content, the body ends with an
  unexpected end of file before delivering a byte, and \<open>verifyArtifact\<close> returns that
  read error although the digest of what was streamed equals the checksum.
\<close>

theorem verifyArtifact_read_error_counterexample:
  "hex (sha256_Sum example_hashers []) = Checksum example_artifact \<and>
   verifyArtifact example_hashers example_artifact []
     \<lparr>rd_Data = [], rd_Err = Some (Failure ''unexpected EOF'')\<rparr>
     = ([], Some (Failure ''unexpected EOF'')) \<and>
   downloadAsBytes (example_http \<lparr>rd_Data = [], rd_Err = Some (Failure ''unexpected EOF'')\<rparr>)
     example_hashers example_artifact = Inl (Failure ''unexpected EOF'')"
  by (simp add: downloadAsBytes_def example_http_def verifyArtifact_def example_hashers_def
      example_artifact_def hex_sha256_of_empty Let_def)

subsection \<open>Dependencies\<close>

lemma checkDependencies_loop_append:
  "checkDependencies_loop r source terraform (pre @ rest) =
     (case checkDependencies_loop r source terraform pre of
        Some err \<Rightarrow> Some err
      | None \<Rightarrow> checkDependencies_loop r source terraform rest)"
  by (induction pre) (auto split: sum.splits option.splits)

lemma checkDependency_not_ready:
  "Conditions (Status tf) = [] \<or> Generation tf \<noteq> ObservedGeneration (Status tf) \<Longrightarrow>
   checkDependency r source terraform dName tf = Some (notReadyError dName)"
  by (auto simp: checkDependency_def)

text \<open>
  Claim C6, as amended. For every declared dependency that the loop reaches (every
  earlier dependency passed) and that was fetched and registered with the back-reference
  finalizer, if the dependency has no conditions or its observed generation differs from
  its generation, its check fails with the not-ready error whatever its conditions hold,
  and the whole dependency check returns that error. Whenever some declared dependency is
  in that state, the dependency check returns an error.
\<close>

theorem checkDependencies_not_ready:
  "(\<forall>pre d post tf.
      DependsOn (Spec terraform) = pre @ d # post \<and>
      checkDependencies_loop r source terraform pre = None \<and>
      fetchDependency r terraform d = Inr tf \<and>
      (Conditions (Status tf) = [] \<or> Generation tf \<noteq> ObservedGeneration (Status tf)) \<longrightarrow>
      checkDependency r source terraform (dependencyName terraform d) tf
        = Some (notReadyError (dependencyName terraform d)) \<and>
      checkDependencies r source terraform = Some (notReadyError (dependencyName terraform d))) \<and>
   (\<forall>d tf.
      d \<in> set (DependsOn (Spec terraform)) \<and>
      fetchDependency r terraform d = Inr tf \<and>
      (Conditions (Status tf) = [] \<or> Generation tf \<noteq> ObservedGeneration (Status tf)) \<longrightarrow>
      checkDependencies r source terraform \<noteq> None)"
proof (intro conjI allI impI)
  fix pre d post tf
  assume h: "DependsOn (Spec terraform) = pre @ d # post \<and>
      checkDependencies_loop r source terraform pre = None \<and>
      fetchDependency r terraform d = Inr tf \<and>
      (Conditions (Status tf) = [] \<or> Generation tf \<noteq> ObservedGeneration (Status tf))"
  then show c: "checkDependency r source terraform (dependencyName terraform d) tf
        = Some (notReadyError (dependencyName terraform d))"
    by (simp add: checkDependency_not_ready)
  from h c show "checkDependencies r source terraform
        = Some (notReadyError (dependencyName terraform d))"
    by (simp add: checkDependencies_def checkDependencies_loop_append)
next
  fix d tf
  assume h: "d \<in> set (DependsOn (Spec terraform)) \<and>
      fetchDependency r terraform d = Inr tf \<and>
      (Conditions (Status tf) = [] \<or> Generation tf \<noteq> ObservedGeneration (Status tf))"
  then obtain pre post where s: "DependsOn (Spec terraform) = pre @ d # post"
    by (auto dest: split_list)
  from h have c: "checkDependency r source terraform (dependencyName terraform d) tf
        = Some (notReadyError (dependencyName terraform d))"
    by (simp add: checkDependency_not_ready)
  from h s c show "checkDependencies r source terraform \<noteq> None"
    by (cases "checkDependencies_loop r source terraform pre")
       (simp_all add: checkDependencies_def checkDependencies_loop_append)
qed

lemma fetch_example:
  "fetchDependency (example_reconciler example_dependency Inr) example_dependent
     \<lparr>ref_Namespace = [], ref_Name = ''db''\<rparr>
     = Inr (AddFinalizer example_dependency ''tf.dependency.of.app'')"
  by (simp add: fetchDependency_def example_reconciler_def example_dependent_def
      dependencyName_def TFDependencyOfPrefix_def ContainsFinalizer_def
      example_dependency_def Let_def)

theorem checkDependencies_not_ready_witness:
  "checkDependencies (example_reconciler example_dependency Inr) example_source example_dependent
     = Some (Failure (''dependency '' @ [CHR 0x27] @ ''default/db'' @ [CHR 0x27] @ '' is not ready''))"
proof -
  have a: "DependsOn (Spec example_dependent) = [] @ \<lparr>ref_Namespace = [], ref_Name = ''db''\<rparr> # []"
    by (simp add: example_dependent_def)
  have b: "Generation (AddFinalizer example_dependency ''tf.dependency.of.app'')
             \<noteq> ObservedGeneration (Status (AddFinalizer example_dependency ''tf.dependency.of.app''))"
    by (simp add: AddFinalizer_def example_dependency_def)
  have n: "notReadyError (dependencyName example_dependent \<lparr>ref_Namespace = [], ref_Name = ''db''\<rparr>)
     = Failure (''dependency '' @ [CHR 0x27] @ ''default/db'' @ [CHR 0x27] @ '' is not ready'')"
    by (simp add: notReadyError_def dependencyName_def example_dependent_def
        NamespacedName_String_def apostrophe_def)
  show ?thesis
    using checkDependencies_not_ready [of example_dependent
        "example_reconciler example_dependency Inr" example_source] a b fetch_example n
    by (metis checkDependencies_loop.simps(1))
qed

text \<open>
  The claim as stated fails when an earlier step of the loop body returns first: \<open>db\<close>
  has an observed generation behind its generation, the patch that registers the
  finalizer on it is refused, and the check returns the patch error, not a not-ready
  error.
\<close>

theorem checkDependencies_finalizer_patch_counterexample:
  "Generation example_dependency \<noteq> ObservedGeneration (Status example_dependency) \<and>
   checkDependencies
     (example_reconciler example_dependency (\<lambda>t. Inl (Failure ''conflict'')))
     example_source example_dependent
     = Some (Failure (''unable to add finalizer to '' @ [CHR 0x27] @ ''default/db'' @ [CHR 0x27]
                      @ '' dependency: conflict''))"
  by (simp add: checkDependencies_def fetchDependency_def example_reconciler_def
      example_dependent_def dependencyName_def TFDependencyOfPrefix_def ContainsFinalizer_def
      example_dependency_def Let_def NamespacedName_String_def apostrophe_def)

lemma checkDependency_ready_same_source:
  assumes "Conditions (Status tf) \<noteq> []"
      and "Generation tf = ObservedGeneration (Status tf)"
      and "IsStatusConditionTrue (Conditions (Status tf)) ReadyCondition"
      and "GetArtifact source = Some artifact"
      and "src_Name (SourceRef (Spec tf)) = src_Name (SourceRef (Spec terraform))"
      and "src_Namespace (SourceRef (Spec tf)) = src_Namespace (SourceRef (Spec terraform))"
      and "src_Kind (SourceRef (Spec tf)) = src_Kind (SourceRef (Spec terraform))"
  shows "checkDependency r source terraform dName tf = Some (notUpdatedError dName) \<longleftrightarrow>
           Revision artifact \<noteq> LastAppliedRevision (Status tf) \<and>
           Revision artifact \<noteq> LastPlannedRevision (Status tf)"
  using assms
  by (auto simp: checkDependency_def Let_def notUpdatedError_def apostrophe_def
           split: option.splits)

text \<open>
  Claim C7, as amended. For every declared dependency that the loop reaches, that was
  fetched and registered, that is ready (it has conditions, has observed its current
  generation and its Ready condition is True) and that shares the source reference of
  the dependent: its check fails with the not-yet-updated error exactly when the
  source's current revision differs from both its last applied and its last planned
  revision, and then the whole dependency check returns that error.
\<close>

theorem checkDependencies_not_updated:
  "\<forall>pre d post tf artifact.
      DependsOn (Spec terraform) = pre @ d # post \<and>
      checkDependencies_loop r source terraform pre = None \<and>
      fetchDependency r terraform d = Inr tf \<and>
      Conditions (Status tf) \<noteq> [] \<and> Generation tf = ObservedGeneration (Status tf) \<and>
      IsStatusConditionTrue (Conditions (Status tf)) ReadyCondition \<and>
      GetArtifact source = Some artifact \<and>
      src_Name (SourceRef (Spec tf)) = src_Name (SourceRef (Spec terraform)) \<and>
      src_Namespace (SourceRef (Spec tf)) = src_Namespace (SourceRef (Spec terraform)) \<and>
      src_Kind (SourceRef (Spec tf)) = src_Kind (SourceRef (Spec terraform)) \<longrightarrow>
      (checkDependency r source terraform (dependencyName terraform d) tf
         = Some (notUpdatedError (dependencyName terraform d)) \<longleftrightarrow>
       Revision artifact \<noteq> LastAppliedRevision (Status tf) \<and>
       Revision artifact \<noteq> LastPlannedRevision (Status tf)) \<and>
      (Revision artifact \<noteq> LastAppliedRevision (Status tf) \<and>
       Revision artifact \<noteq> LastPlannedRevision (Status tf) \<longrightarrow>
       checkDependencies r source terraform
         = Some (notUpdatedError (dependencyName terraform d)))"
proof (intro allI impI)
  fix pre d post tf artifact
  assume h: "DependsOn (Spec terraform) = pre @ d # post \<and>
      checkDependencies_loop r source terraform pre = None \<and>
      fetchDependency r terraform d = Inr tf \<and>
      Conditions (Status tf) \<noteq> [] \<and> Generation tf = ObservedGeneration (Status tf) \<and>
      IsStatusConditionTrue (Conditions (Status tf)) ReadyCondition \<and>
      GetArtifact source = Some artifact \<and>
      src_Name (SourceRef (Spec tf)) = src_Name (SourceRef (Spec terraform)) \<and>
      src_Namespace (SourceRef (Spec tf)) = src_Namespace (SourceRef (Spec terraform)) \<and>
      src_Kind (SourceRef (Spec tf)) = src_Kind (SourceRef (Spec terraform))"
  then have c: "checkDependency r source terraform (dependencyName terraform d) tf
         = Some (notUpdatedError (dependencyName terraform d)) \<longleftrightarrow>
       Revision artifact \<noteq> LastAppliedRevision (Status tf) \<and>
       Revision artifact \<noteq> LastPlannedRevision (Status tf)"
    by (intro checkDependency_ready_same_source) simp_all
  have w: "checkDependencies r source terraform
         = Some (notUpdatedError (dependencyName terraform d))"
    if "Revision artifact \<noteq> LastAppliedRevision (Status tf) \<and>
       Revision artifact \<noteq> LastPlannedRevision (Status tf)"
    using that h c by (simp add: checkDependencies_def checkDependencies_loop_append)
  from c w show "(checkDependency r source terraform (dependencyName terraform d) tf
         = Some (notUpdatedError (dependencyName terraform d)) \<longleftrightarrow>
       Revision artifact \<noteq> LastAppliedRevision (Status tf) \<and>
       Revision artifact \<noteq> LastPlannedRevision (Status tf)) \<and>
      (Revision artifact \<noteq> LastAppliedRevision (Status tf) \<and>
       Revision artifact \<noteq> LastPlannedRevision (Status tf) \<longrightarrow>
       checkDependencies r source terraform
         = Some (notUpdatedError (dependencyName terraform d)))"
    by blast
qed

lemma fetch_example_ready:
  "fetchDependency (example_reconciler example_dependency_ready Inr) example_dependent
     \<lparr>ref_Namespace = [], ref_Name = ''db''\<rparr> = Inr example_dependency_ready"
  by (simp add: fetchDependency_def example_reconciler_def example_dependent_def
      dependencyName_def TFDependencyOfPrefix_def ContainsFinalizer_def
      example_dependency_ready_def example_dependency_def Let_def)

theorem checkDependencies_not_updated_witness:
  "checkDependencies (example_reconciler example_dependency_ready Inr) example_source
     example_dependent
     = Some (Failure (''dependency '' @ [CHR 0x27] @ ''default/db'' @ [CHR 0x27]
                      @ '' is not updated yet''))"
proof -
  have a: "DependsOn (Spec example_dependent) = [] @ \<lparr>ref_Namespace = [], ref_Name = ''db''\<rparr> # []"
    by (simp add: example_dependent_def)
  have b: "Conditions (Status example_dependency_ready) \<noteq> [] \<and>
      Generation example_dependency_ready = ObservedGeneration (Status example_dependency_ready) \<and>
      IsStatusConditionTrue (Conditions (Status example_dependency_ready)) ReadyCondition \<and>
      src_Name (SourceRef (Spec example_dependency_ready)) = src_Name (SourceRef (Spec example_dependent)) \<and>
      src_Namespace (SourceRef (Spec example_dependency_ready)) = src_Namespace (SourceRef (Spec example_dependent)) \<and>
      src_Kind (SourceRef (Spec example_dependency_ready)) = src_Kind (SourceRef (Spec example_dependent))"
    by (simp add: example_dependency_ready_def example_dependency_def example_dependent_def
        IsStatusConditionTrue_def example_ready_def ReadyCondition_def)
  have c: "GetArtifact example_source = Some \<lparr>URL = ''http://source-controller/repo/bbb.tar.gz'',
     Revision = ''main/bbb'',
     Checksum = ''e3b0c44298fc1c149afbf4c8996fb92427ae41e4649b934ca495991b7852b855''\<rparr>"
    by (simp add: example_source_def)
  have d: "''main/bbb'' \<noteq> LastAppliedRevision (Status example_dependency_ready) \<and>
           ''main/bbb'' \<noteq> LastPlannedRevision (Status example_dependency_ready)"
    by (simp add: example_dependency_ready_def example_dependency_def)
  have n: "notUpdatedError (dependencyName example_dependent \<lparr>ref_Namespace = [], ref_Name = ''db''\<rparr>)
     = Failure (''dependency '' @ [CHR 0x27] @ ''default/db'' @ [CHR 0x27] @ '' is not updated yet'')"
    by (simp add: notUpdatedError_def dependencyName_def example_dependent_def
        NamespacedName_String_def apostrophe_def)
  have "checkDependencies (example_reconciler example_dependency_ready Inr) example_source
     example_dependent
     = Some (notUpdatedError (dependencyName example_dependent \<lparr>ref_Namespace = [], ref_Name = ''db''\<rparr>))"
    using checkDependencies_not_updated [of example_dependent
        "example_reconciler example_dependency_ready Inr" example_source,
        rule_format, of "[]" "\<lparr>ref_Namespace = [], ref_Name = ''db''\<rparr>" "[]"
        example_dependency_ready] a b c d fetch_example_ready
    by simp
  with n show ?thesis by simp
qed

text \<open>
  The claim as stated fails for a dependency that is not ready: \<open>db\<close> shares the source
  of \<open>app\<close> and has reconciled neither revision \<open>main/bbb\<close>, but its observed generation
  lags, so the check returns the not-ready error, not the not-yet-updated error.
\<close>

theorem checkDependencies_not_ready_first_counterexample:
  "src_Name (SourceRef (Spec example_dependency)) = src_Name (SourceRef (Spec example_dependent)) \<and>
   src_Namespace (SourceRef (Spec example_dependency)) = src_Namespace (SourceRef (Spec example_dependent)) \<and>
   src_Kind (SourceRef (Spec example_dependency)) = src_Kind (SourceRef (Spec example_dependent)) \<and>
   map_option Revision (GetArtifact example_source) = Some ''main/bbb'' \<and>
   LastAppliedRevision (Status example_dependency) = ''main/aaa'' \<and>
   LastPlannedRevision (Status example_dependency) = ''main/aaa'' \<and>
   checkDependencies (example_reconciler example_dependency Inr) example_source example_dependent
     = Some (Failure (''dependency '' @ [CHR 0x27] @ ''default/db'' @ [CHR 0x27] @ '' is not ready''))"
  by (simp add: checkDependencies_def fetchDependency_def checkDependency_def
      example_reconciler_def example_dependent_def dependencyName_def TFDependencyOfPrefix_def
      ContainsFinalizer_def AddFinalizer_def example_dependency_def example_source_def
      notReadyError_def Let_def NamespacedName_String_def apostrophe_def)

subsection \<open>The approval gate\<close>

lemma cycleObjects_append [simp]:
  "cycleObjects (xs @ ys) = cycleObjects xs @ cycleObjects ys"
  by (induction xs rule: cycleObjects.induct) simp_all

lemma quiet_andThen:
  assumes "quiet m c1" and "\<And>a. cycleObjects (c1 a) = [] \<Longrightarrow> quiet (f a) c2"
  shows "quiet (andThen m f) c2"
  using assms by (cases m) (auto simp: quiet_def andThen_def)

lemma quiet_fetch: "quiet (Reconcile_fetch r req) snd"
  by (auto simp: quiet_def Reconcile_fetch_def andThen_def Let_def
           split: sum.splits if_splits)

lemma quiet_notReadyReturn:
  "cycleObjects calls = [] \<Longrightarrow> cycleObjects events = [] \<Longrightarrow>
   cycleObjects (out_Calls (notReadyReturn r req t calls events)) = []"
  by (auto simp: notReadyReturn_def Let_def split: option.splits)

lemma quiet_deletionBlocked:
  "cycleObjects (snd tc) = [] \<Longrightarrow> quiet (Reconcile_deletionBlocked r req tc) snd"
  by (cases tc) (auto simp: quiet_def Reconcile_deletionBlocked_def Let_def
           split: sum.splits option.splits if_splits)

lemma quiet_source:
  "cycleObjects (snd tc) = [] \<Longrightarrow> quiet (Reconcile_source r req tc) pr_calls"
  by (cases tc) (auto simp: quiet_def Reconcile_source_def Let_def quiet_notReadyReturn
           split: sum.splits option.splits if_splits)

lemma quiet_dependencies:
  "cycleObjects (pr_calls p) = [] \<Longrightarrow> quiet (Reconcile_dependencies r req p) pr_calls"
  by (auto simp: quiet_def Reconcile_dependencies_def Let_def quiet_notReadyReturn event_def
           split: sum.splits option.splits if_splits)

lemma quiet_progressing:
  "cycleObjects (pr_calls p) = [] \<Longrightarrow> quiet (Reconcile_progressing r req p) pr_calls"
  by (auto simp: quiet_def Reconcile_progressing_def Let_def
           split: sum.splits option.splits if_splits)

lemma quiet_runner:
  "cycleObjects (pr_calls p) = [] \<Longrightarrow> quiet (Reconcile_runner r p) pr_calls"
  by (auto simp: quiet_def Reconcile_runner_def Let_def
           split: sum.splits option.splits if_splits)

lemma quiet_finalize:
  "cycleObjects (pr_calls p) = [] \<Longrightarrow> quiet (Reconcile_finalize r p) pr_calls"
  by (auto simp: quiet_def Reconcile_finalize_def Let_def
           split: sum.splits option.splits if_splits prod.splits)

lemma quiet_clearPending:
  "cycleObjects (pr_calls p) = [] \<Longrightarrow> quiet (Reconcile_clearPending r req p) pr_calls"
  by (auto simp: quiet_def Reconcile_clearPending_def Let_def
           split: sum.splits option.splits if_splits)

lemma quiet_prepare: "quiet (Reconcile_prepare r req) pr_calls"
proof -
  let ?s1 = "Reconcile_fetch r req"
  let ?s2 = "andThen ?s1 (Reconcile_deletionBlocked r req)"
  let ?s3 = "andThen ?s2 (Reconcile_source r req)"
  let ?s4 = "andThen ?s3 (Reconcile_dependencies r req)"
  let ?s5 = "andThen ?s4 (Reconcile_progressing r req)"
  let ?s6 = "andThen ?s5 (Reconcile_runner r)"
  let ?s7 = "andThen ?s6 (Reconcile_finalize r)"
  have 1: "quiet ?s1 snd" by (rule quiet_fetch)
  have 2: "quiet ?s2 snd" by (rule quiet_andThen [OF 1]) (rule quiet_deletionBlocked)
  have 3: "quiet ?s3 pr_calls" by (rule quiet_andThen [OF 2]) (rule quiet_source)
  have 4: "quiet ?s4 pr_calls" by (rule quiet_andThen [OF 3]) (rule quiet_dependencies)
  have 5: "quiet ?s5 pr_calls" by (rule quiet_andThen [OF 4]) (rule quiet_progressing)
  have 6: "quiet ?s6 pr_calls" by (rule quiet_andThen [OF 5]) (rule quiet_runner)
  have 7: "quiet ?s7 pr_calls" by (rule quiet_andThen [OF 6]) (rule quiet_finalize)
  show ?thesis
    unfolding Reconcile_prepare_def
    by (rule quiet_andThen [OF 7]) (rule quiet_clearPending)
qed

lemma prepare_Inr_quiet:
  "Reconcile_prepare r req = Inr p \<Longrightarrow> cycleObjects (pr_calls p) = []"
  using quiet_prepare [of r req] by (simp add: quiet_def)

lemma prepare_Inl_quiet:
  "Reconcile_prepare r req = Inl outcome \<Longrightarrow> cycleObjects (out_Calls outcome) = []"
  using quiet_prepare [of r req] by (simp add: quiet_def)

lemma cycleObjects_cycle:
  "cycleObjects (pr_calls p) = [] \<Longrightarrow>
   cycleObjects (out_Calls (Reconcile_cycle r req p)) = [pr_terraform p]"
  by (auto simp: Reconcile_cycle_def Let_def event_def split: prod.splits option.splits)

text \<open>
  Claim C2, as amended. \<open>r.forceOrAutoApply\<close> and \<open>r.shouldApply\<close> are the reconciler's
  approval predicates: approval is forced or automatic, and approval calls for applying
  the pending plan.

  First gate: for every reconciliation that reaches the approval gate holding an object
  with a non-empty pending plan id of which neither predicate holds, \<open>Reconcile\<close> returns
  \<open>ctrl.Result{}\<close> (no requeue) and no error, and no plan/apply/drift cycle has been run.

  In every reconciliation, whatever the collaborators answer, the cycle is only ever run
  on an object whose pending plan id is empty or of which one of the predicates holds.

  Second gate: when the cycle was run, returned no error and its status was persisted,
  and the reconciled object holds a pending plan id while \<open>r.forceOrAutoApply\<close> does not
  hold of it, \<open>Reconcile\<close> again returns \<open>ctrl.Result{}\<close> and no error. This second check
  does not ask \<open>r.shouldApply\<close>.
\<close>

theorem Reconcile_approval_gate:
  "(\<forall>p. Reconcile_prepare r req = Inr p \<and>
        Pending (Plan (Status (pr_terraform p))) \<noteq> [] \<and>
        \<not> forceOrAutoApply r (pr_terraform p) \<and>
        \<not> shouldApply r (pr_terraform p) \<longrightarrow>
        Reconcile r req = \<lparr>out_Result = NoRequeue, out_Err = None, out_Calls = pr_calls p\<rparr> \<and>
        cycleObjects (out_Calls (Reconcile r req)) = []) \<and>
   (\<forall>t \<in> set (cycleObjects (out_Calls (Reconcile r req))).
        Pending (Plan (Status t)) = [] \<or> forceOrAutoApply r t \<or> shouldApply r t) \<and>
   (\<forall>p reconciled.
        Reconcile_prepare r req = Inr p \<and>
        (Pending (Plan (Status (pr_terraform p))) = [] \<or>
         forceOrAutoApply r (pr_terraform p) \<or> shouldApply r (pr_terraform p)) \<and>
        reconcile r (pr_terraform p) (pr_sourceObj p) = (reconciled, None) \<and>
        patchStatus r req (Status reconciled) = None \<and>
        Pending (Plan (Status reconciled)) \<noteq> [] \<and>
        \<not> forceOrAutoApply r reconciled \<longrightarrow>
        out_Result (Reconcile r req) = NoRequeue \<and> out_Err (Reconcile r req) = None)"
proof (intro conjI allI impI ballI)
  fix p
  assume h: "Reconcile_prepare r req = Inr p \<and>
        Pending (Plan (Status (pr_terraform p))) \<noteq> [] \<and>
        \<not> forceOrAutoApply r (pr_terraform p) \<and>
        \<not> shouldApply r (pr_terraform p)"
  then show g: "Reconcile r req
        = \<lparr>out_Result = NoRequeue, out_Err = None, out_Calls = pr_calls p\<rparr>"
    by (simp add: Reconcile_def Reconcile_approvalGate_def Let_def)
  from h have "cycleObjects (pr_calls p) = []" using prepare_Inr_quiet by blast
  with g show "cycleObjects (out_Calls (Reconcile r req)) = []" by simp
next
  fix t assume t: "t \<in> set (cycleObjects (out_Calls (Reconcile r req)))"
  show "Pending (Plan (Status t)) = [] \<or> forceOrAutoApply r t \<or> shouldApply r t"
  proof (cases "Reconcile_prepare r req")
    case (Inl outcome)
    then have "cycleObjects (out_Calls (Reconcile r req)) = []"
      by (simp add: Reconcile_def prepare_Inl_quiet)
    with t show ?thesis by simp
  next
    case (Inr p)
    then have q: "cycleObjects (pr_calls p) = []" by (rule prepare_Inr_quiet)
    show ?thesis
    proof (cases "Pending (Plan (Status (pr_terraform p))) \<noteq> [] \<and>
                  \<not> forceOrAutoApply r (pr_terraform p) \<and> \<not> shouldApply r (pr_terraform p)")
      case True
      with Inr q have "cycleObjects (out_Calls (Reconcile r req)) = []"
        by (simp add: Reconcile_def Reconcile_approvalGate_def Let_def)
      with t show ?thesis by simp
    next
      case False
      with Inr have "Reconcile r req = Reconcile_cycle r req p"
        by (auto simp: Reconcile_def Reconcile_approvalGate_def Let_def)
      with q t have "t = pr_terraform p" by (simp add: cycleObjects_cycle)
      with False show ?thesis by blast
    qed
  qed
next
  fix p reconciled
  assume h: "Reconcile_prepare r req = Inr p \<and>
        (Pending (Plan (Status (pr_terraform p))) = [] \<or>
         forceOrAutoApply r (pr_terraform p) \<or> shouldApply r (pr_terraform p)) \<and>
        reconcile r (pr_terraform p) (pr_sourceObj p) = (reconciled, None) \<and>
        patchStatus r req (Status reconciled) = None \<and>
        Pending (Plan (Status reconciled)) \<noteq> [] \<and>
        \<not> forceOrAutoApply r reconciled"
  then have "\<not> (Pending (Plan (Status (pr_terraform p))) \<noteq> [] \<and>
                \<not> forceOrAutoApply r (pr_terraform p) \<and> \<not> shouldApply r (pr_terraform p))"
    by blast
  with h have c: "Reconcile r req = Reconcile_cycle r req p"
    by (auto simp: Reconcile_def Reconcile_approvalGate_def Let_def)
  from h show "out_Result (Reconcile r req) = NoRequeue"
    by (simp add: c Reconcile_cycle_def Let_def)
  from h show "out_Err (Reconcile r req) = None"
    by (simp add: c Reconcile_cycle_def Let_def)
qed

lemmas loop_defs =
  Reconcile_prepare_def andThen_def Reconcile_fetch_def Reconcile_deletionBlocked_def
  Reconcile_source_def Reconcile_dependencies_def Reconcile_progressing_def
  Reconcile_runner_def Reconcile_finalize_def Reconcile_clearPending_def
  getSource_def patchStatus_def isBeingDeleted_def ContainsFinalizer_def
  TerraformProgressing_def newCondition_def updateExisting_def trimString_def
  MaxConditionMessageLength_def IsZero_def ReadyCondition_def ProgressingReason_def
  TerraformFinalizer_def TFDependencyOfPrefix_def HasPrefix_def spec_shouldApply_def
  spec_forceOrAutoApply_def ApprovePlanAutoValue_def NoRequeue_def Let_def

lemmas example_defs =
  example_loop_reconciler_def example_reconciler_def example_key_def example_terraform_def
  example_ready_def example_apply_def example_loop_artifact_def example_progressing_def
  example_cleared_def

lemma prepare_example_same_revision:
  "Reconcile_prepare (example_loop_reconciler ''main/aaa'' cycle) example_key =
     Inr \<lparr>pr_terraform = example_progressing,
          pr_sourceObj = \<lparr>GetArtifact = Some (example_loop_artifact ''main/aaa'')\<rparr>,
          pr_artifact = example_loop_artifact ''main/aaa'',
          pr_calls = [PatchStatusCall (Status example_progressing),
                      LookupOrCreateRunnerCall example_progressing]\<rparr>"
  by (simp add: loop_defs example_defs)

lemma prepare_example_new_revision:
  "Reconcile_prepare (example_loop_reconciler ''main/bbb'' cycle) example_key =
     Inr \<lparr>pr_terraform = example_cleared,
          pr_sourceObj = \<lparr>GetArtifact = Some (example_loop_artifact ''main/bbb'')\<rparr>,
          pr_artifact = example_loop_artifact ''main/bbb'',
          pr_calls = [PatchStatusCall (Status example_progressing),
                      LookupOrCreateRunnerCall example_progressing,
                      PatchStatusCall (Status example_cleared)]\<rparr>"
  by (simp add: loop_defs example_defs)

lemma example_progressing_fields:
  "Pending (Plan (Status example_progressing)) = ''plan-main-aaa''"
  "Force (Spec example_progressing) = False"
  "ApprovePlan (Spec example_progressing) = []"
  "Interval (Spec example_progressing) = 600"
  by (simp_all add: example_progressing_def TerraformProgressing_def example_terraform_def)

lemma example_cleared_fields:
  "Pending (Plan (Status example_cleared)) = []"
  "Force (Spec example_cleared) = False"
  "ApprovePlan (Spec example_cleared) = []"
  "Interval (Spec example_cleared) = 600"
  by (simp_all add: example_cleared_def example_progressing_def TerraformProgressing_def
      example_terraform_def)

lemma example_predicates:
  "forceOrAutoApply (example_loop_reconciler revision cycle) = spec_forceOrAutoApply"
  "shouldApply (example_loop_reconciler revision cycle) = spec_shouldApply"
  by (simp_all add: example_loop_reconciler_def example_reconciler_def)

lemma patchStatus_example:
  "patchStatus (example_loop_reconciler revision cycle) example_key st = None"
  by (simp add: patchStatus_def example_loop_reconciler_def example_reconciler_def)

theorem Reconcile_approval_gate_witness:
  "Reconcile (example_loop_reconciler ''main/aaa'' example_no_changes) example_key =
     \<lparr>out_Result = \<lparr>Requeue = False, RequeueAfter = 0\<rparr>, out_Err = None,
      out_Calls = [PatchStatusCall (Status example_progressing),
                   LookupOrCreateRunnerCall example_progressing]\<rparr> \<and>
   out_Result (Reconcile (example_loop_reconciler ''main/bbb'' example_new_plan) example_key)
     = \<lparr>Requeue = False, RequeueAfter = 0\<rparr> \<and>
   cycleObjects (out_Calls
     (Reconcile (example_loop_reconciler ''main/bbb'' example_new_plan) example_key))
     = [example_cleared]"
proof -
  let ?r1 = "example_loop_reconciler ''main/aaa'' example_no_changes"
  let ?r2 = "example_loop_reconciler ''main/bbb'' example_new_plan"
  have a: "Reconcile ?r1 example_key =
     \<lparr>out_Result = \<lparr>Requeue = False, RequeueAfter = 0\<rparr>, out_Err = None,
      out_Calls = [PatchStatusCall (Status example_progressing),
                   LookupOrCreateRunnerCall example_progressing]\<rparr>"
    using Reconcile_approval_gate [of ?r1 example_key]
          prepare_example_same_revision [of example_no_changes]
    by (simp add: example_predicates spec_forceOrAutoApply_def spec_shouldApply_def
        example_progressing_fields ApprovePlanAutoValue_def NoRequeue_def)
  have rc: "reconcile ?r2 example_cleared \<lparr>GetArtifact = Some (example_loop_artifact ''main/bbb'')\<rparr>
      = (example_cleared\<lparr>Status := (Status example_cleared)
           \<lparr>Plan := (Plan (Status example_cleared))\<lparr>Pending := ''plan-main-bbb''\<rparr>\<rparr>\<rparr>, None)"
    by (simp add: example_loop_reconciler_def example_new_plan_def)
  have b: "out_Result (Reconcile ?r2 example_key) = \<lparr>Requeue = False, RequeueAfter = 0\<rparr>"
    using Reconcile_approval_gate [of ?r2 example_key]
          prepare_example_new_revision [of example_new_plan] rc
    by (simp add: example_predicates spec_forceOrAutoApply_def example_cleared_fields
        ApprovePlanAutoValue_def NoRequeue_def patchStatus_example)
  have c: "cycleObjects (out_Calls (Reconcile ?r2 example_key)) = [example_cleared]"
    using prepare_example_new_revision [of example_new_plan]
    by (simp add: Reconcile_def Reconcile_approvalGate_def cycleObjects_cycle
        example_cleared_fields Let_def)
  from a b c show ?thesis by blast
qed

text \<open>
  The claim as stated, for every reconciliation of an object that holds a pending plan
  without approval, fails on the steps that precede the gate. The stored object holds
  the pending plan \<open>plan-main-aaa\<close> under manual approval (no force, an empty approval
  field) and last attempted revision \<open>main/aaa\<close>; the source has moved to \<open>main/bbb\<close>.
  The loop clears the pending plan, runs the cycle on the cleared object, and, the cycle
  leaving no plan pending, requeues after the object's interval.
\<close>

theorem Reconcile_requeues_counterexample:
  "Get_Terraform (example_loop_reconciler ''main/bbb'' example_no_changes) example_key
     = Inr example_terraform \<and>
   Pending (Plan (Status example_terraform)) = ''plan-main-aaa'' \<and>
   \<not> Force (Spec example_terraform) \<and>
   ApprovePlan (Spec example_terraform) = [] \<and>
   \<not> forceOrAutoApply (example_loop_reconciler ''main/bbb'' example_no_changes)
       example_terraform \<and>
   \<not> shouldApply (example_loop_reconciler ''main/bbb'' example_no_changes)
       example_terraform \<and>
   out_Result (Reconcile (example_loop_reconciler ''main/bbb'' example_no_changes) example_key)
     = \<lparr>Requeue = False, RequeueAfter = 600\<rparr> \<and>
   cycleObjects (out_Calls
     (Reconcile (example_loop_reconciler ''main/bbb'' example_no_changes) example_key))
     = [example_cleared]"
proof -
  let ?r = "example_loop_reconciler ''main/bbb'' example_no_changes"
  have i: "Get_Terraform ?r example_key = Inr example_terraform \<and>
   Pending (Plan (Status example_terraform)) = ''plan-main-aaa'' \<and>
   \<not> Force (Spec example_terraform) \<and> ApprovePlan (Spec example_terraform) = []"
    by (simp add: example_loop_reconciler_def example_terraform_def)
  have j: "\<not> forceOrAutoApply ?r example_terraform \<and> \<not> shouldApply ?r example_terraform"
    by (simp add: example_predicates spec_forceOrAutoApply_def spec_shouldApply_def
        example_terraform_def ApprovePlanAutoValue_def)
  have rc: "reconcile ?r example_cleared \<lparr>GetArtifact = Some (example_loop_artifact ''main/bbb'')\<rparr>
      = (example_cleared, None)"
    by (simp add: example_loop_reconciler_def example_no_changes_def)
  have g: "Reconcile ?r example_key = Reconcile_cycle ?r example_key
     \<lparr>pr_terraform = example_cleared,
      pr_sourceObj = \<lparr>GetArtifact = Some (example_loop_artifact ''main/bbb'')\<rparr>,
      pr_artifact = example_loop_artifact ''main/bbb'',
      pr_calls = [PatchStatusCall (Status example_progressing),
                  LookupOrCreateRunnerCall example_progressing,
                  PatchStatusCall (Status example_cleared)]\<rparr>"
    using prepare_example_new_revision [of example_no_changes]
    by (simp add: Reconcile_def Reconcile_approvalGate_def example_cleared_fields Let_def)
  have a: "out_Result (Reconcile ?r example_key) = \<lparr>Requeue = False, RequeueAfter = 600\<rparr>"
    by (simp add: g Reconcile_cycle_def rc patchStatus_example example_cleared_fields Let_def)
  have b: "cycleObjects (out_Calls (Reconcile ?r example_key)) = [example_cleared]"
    by (simp add: g cycleObjects_cycle)
  from i j a b show ?thesis by blast
qed

end
